theory Spec2Isabelle
  imports Main
begin

section \<open>LibraryManager: synchronisation of music providers into the library\<close>

text \<open>
  A shallow embedding of \<^verbatim>\<open>music_assistant/managers/library.py\<close>.
  The manager's own mutable data (the list \<^verbatim>\<open>running_sync_jobs\<close>) is a field
  of an explicit state. The collaborators reached through \<^verbatim>\<open>self.mass\<close> (providers,
  the music manager, the database, the cache, the event bus, the job runner) are not part
  of the file: what they return is taken from an environment, every call made to them is
  appended to a trace, and any of them may fail, which aborts the caller as a Python
  exception does. The embedding covers the decorator, the five syncers, the coordinator,
  the event handler and the two playlist editors; the list queries, which only forward
  to the database, \<^verbatim>\<open>async_library_add\<close>, \<^verbatim>\<open>async_library_remove\<close> and the
  periodic driver are left out.
\<close>

subsection \<open>Data model\<close>

text \<open>\<^verbatim>\<open>MediaType\<close>, as far as the manager names its members.\<close>

datatype media_type = Artist | Album | Track | Playlist | Radio

text \<open>
  \<^verbatim>\<open>ProviderType\<close>: the manager only ever compares with
  \<^verbatim>\<open>ProviderType.MUSIC_PROVIDER\<close>; every other member is \<open>OTHER_PROVIDER\<close>.
\<close>

datatype provider_type = MUSIC_PROVIDER | OTHER_PROVIDER

text \<open>
  One entry of \<^verbatim>\<open>MediaItem.provider_ids\<close>: the fields \<^verbatim>\<open>provider\<close>,
  \<^verbatim>\<open>item_id\<close> and \<^verbatim>\<open>quality\<close> of the source (the first two renamed, since
  the media item has fields of the same names).
\<close>

record provider_ref =
  ref_provider :: string
  ref_item_id :: string
  quality :: int

text \<open>The fields of \<^verbatim>\<open>MediaItem\<close> the manager reads.\<close>

record media_item =
  item_id :: string
  provider :: string
  provider_ids :: "provider_ref list"
  available :: bool

text \<open>A \<^verbatim>\<open>Playlist\<close> is a media item with two more fields.\<close>

record playlist = media_item +
  is_editable :: bool
  checksum :: string

text \<open>
  What a Python function hands back where the manager returns \<^verbatim>\<open>None\<close>,
  \<^verbatim>\<open>False\<close> or the provider's answer.
\<close>

datatype retval = PyNone | PyBool bool

text \<open>
  A provider object: the attributes \<^verbatim>\<open>id\<close>, \<^verbatim>\<open>type\<close> and
  \<^verbatim>\<open>supported_mediatypes\<close>, what its five catalog listings return, and what it
  answers to a playlist edit.
\<close>

record music_provider =
  prov_id :: string
  prov_type :: provider_type
  supported_mediatypes :: "media_type list"
  library_artists :: "media_item list"
  library_albums :: "media_item list"
  library_tracks :: "media_item list"
  library_playlists :: "playlist list"
  library_radios :: "media_item list"
  add_playlist_tracks_result :: "string \<Rightarrow> string list \<Rightarrow> retval"
  remove_playlist_tracks_result :: "string \<Rightarrow> string list \<Rightarrow> retval"

type_synonym sync_job = "string \<times> string"

text \<open>The three messages \<^verbatim>\<open>sync_task\<close> writes with \<^verbatim>\<open>LOGGER.debug\<close>.\<close>

datatype log_msg =
    AlreadyRunning string string
  | StartSyncjob string string
  | FinishedSyncing string string

text \<open>
  Everything the manager does to the outside, in the order it does it: one constructor per
  collaborator method the source calls, with the arguments of the call.
\<close>

datatype call =
    LoggerDebug log_msg
  | SignalEvent string "sync_job list"
  | AddJob string
  | CacheGet string
  | CacheSet string "string list"
  | ProvGetLibrary string media_type
  | MusicGet media_type string string
  | MusicMatchAlbum media_item
  | MusicMatchTrack media_item
  | MusicAddTrack media_item
  | MusicGetAlbumTracks string string
  | MusicGetPlaylistTracks string string
  | DbAddPlaylist playlist
  | DbAddToLibrary string media_type string
  | DbRemoveFromLibrary string media_type string
  | DbUpdatePlaylist string string string
  | ProvAddPlaylistTracks string string "string list"
  | ProvRemovePlaylistTracks string string "string list"

text \<open>
  The exceptions of the model: \<^verbatim>\<open>AttributeError\<close> for an attribute of
  \<^verbatim>\<open>None\<close>, \<^verbatim>\<open>IndexError\<close> for \<^verbatim>\<open>provider_ids[0]\<close> on an empty
  list, \<^verbatim>\<open>ValueError\<close> for \<^verbatim>\<open>list.remove\<close> of an absent element, and
  \<open>CallFailed c\<close> for whatever the collaborator call \<open>c\<close> raises.
\<close>

datatype error = AttributeError | IndexError | ValueError | CallFailed call

text \<open>
  The environment: the answers of the collaborators, and which of their calls fail.
  \<open>get_provider\<close> is \<^verbatim>\<open>mass.get_provider\<close> (\<open>None\<close> for an unknown id, which
  the source tests with \<^verbatim>\<open>if not provider\<close>); the \<open>music_\<close> fields are the
  methods of \<^verbatim>\<open>mass.music\<close>; \<open>db_async_add_playlist\<close> is
  \<^verbatim>\<open>mass.database.async_add_playlist\<close>; \<open>time_str\<close> is
  \<^verbatim>\<open>str(time.time())\<close>; the two event names are the constants imported from
  \<^verbatim>\<open>music_assistant.constants\<close>.
\<close>

record env =
  get_provider :: "string \<Rightarrow> music_provider option"
  music_async_get_artist :: "string \<Rightarrow> string \<Rightarrow> media_item"
  music_async_get_album :: "string \<Rightarrow> string \<Rightarrow> media_item"
  music_async_get_track :: "string \<Rightarrow> string \<Rightarrow> media_item"
  music_async_get_radio :: "string \<Rightarrow> string \<Rightarrow> media_item"
  music_async_get_playlist :: "string \<Rightarrow> string \<Rightarrow> playlist option"
  music_async_match_album :: "media_item \<Rightarrow> media_item"
  music_async_add_track :: "media_item \<Rightarrow> media_item"
  music_async_get_album_tracks :: "string \<Rightarrow> string \<Rightarrow> media_item list"
  music_async_get_playlist_tracks :: "string \<Rightarrow> string \<Rightarrow> media_item list"
  db_async_add_playlist :: "playlist \<Rightarrow> playlist"
  time_str :: string
  EVENT_MUSIC_SYNC_STATUS :: string
  EVENT_PROVIDER_REGISTERED :: string
  fails :: "call \<Rightarrow> bool"

text \<open>
  The state: \<^verbatim>\<open>self.running_sync_jobs\<close>, the contents of the cache, and the trace
  of calls made so far.
\<close>

record state =
  running_sync_jobs :: "sync_job list"
  cache :: "string \<Rightarrow> string list option"
  trace :: "call list"

text \<open>
  A call of the manager either returns a value or raises; either way it leaves a state
  behind.
\<close>

datatype 'a outcome = Returned 'a state | Raised error state

fun and_then :: "'a outcome \<Rightarrow> ('a \<Rightarrow> state \<Rightarrow> 'b outcome) \<Rightarrow> 'b outcome" where
  "and_then (Returned v s) f = f v s"
| "and_then (Raised e s) f = Raised e s"

fun state_of :: "'a outcome \<Rightarrow> state" where
  "state_of (Returned v s) = s"
| "state_of (Raised e s) = s"

fun has_returned :: "'a outcome \<Rightarrow> bool" where
  "has_returned (Returned v s) = True"
| "has_returned (Raised e s) = False"

definition emit :: "call \<Rightarrow> state \<Rightarrow> state" where
  "emit c s = s\<lparr>trace := trace s @ [c]\<rparr>"

text \<open>A call to a collaborator: it is recorded, then it fails or not.\<close>

definition call :: "env \<Rightarrow> call \<Rightarrow> state \<Rightarrow> unit outcome" where
  "call e c s = (if fails e c then Raised (CallFailed c) (emit c s) else Returned () (emit c s))"

text \<open>
  Modelled from the spec: the cache collaborator \<^verbatim>\<open>mass.cache\<close> is not in the
  source; the spec gives it as \<^verbatim>\<open>get(key, default) -> value\<close> and
  \<^verbatim>\<open>set(key, value)\<close>, a key/value store that remembers identifier lists across
  sync runs.
\<close>

definition cache_async_get :: "env \<Rightarrow> string \<Rightarrow> string list \<Rightarrow> state \<Rightarrow> string list outcome" where
  "cache_async_get e key dflt s =
     and_then (call e (CacheGet key) s)
       (\<lambda>_ s1. Returned (case cache s1 key of None \<Rightarrow> dflt | Some v \<Rightarrow> v) s1)"

definition cache_async_set :: "env \<Rightarrow> string \<Rightarrow> string list \<Rightarrow> state \<Rightarrow> unit outcome" where
  "cache_async_set e key v s =
     and_then (call e (CacheSet key v) s)
       (\<lambda>_ s1. Returned () (s1\<lparr>cache := (cache s1)(key \<mapsto> v)\<rparr>))"

subsection \<open>The decorator \<^verbatim>\<open>sync_task\<close>\<close>

text \<open>
  The loop at the head of \<^verbatim>\<open>async_wrapped\<close>: is a job with this provider id and
  this description in the list?
\<close>

fun already_running :: "sync_job list \<Rightarrow> string \<Rightarrow> string \<Rightarrow> bool" where
  "already_running [] prov desc = False"
| "already_running ((sync_prov_id, sync_desc) # jobs) prov desc =
     (if sync_prov_id = prov \<and> sync_desc = desc then True else already_running jobs prov desc)"

text \<open>
  Lines 39 to 44: the start message, the append to \<^verbatim>\<open>running_sync_jobs\<close>, the
  status event.
\<close>

definition register_job :: "string \<Rightarrow> env \<Rightarrow> state \<Rightarrow> string \<Rightarrow> unit outcome" where
  "register_job desc e s prov =
     (let s0 = emit (LoggerDebug (StartSyncjob desc prov)) s;
          s1 = s0\<lparr>running_sync_jobs := running_sync_jobs s0 @ [(prov, desc)]\<rparr>
      in call e (SignalEvent (EVENT_MUSIC_SYNC_STATUS e) (running_sync_jobs s1)) s1)"

text \<open>
  Lines 46 to 50: the end message, \<^verbatim>\<open>running_sync_jobs.remove(sync_job)\<close> (the
  first occurrence; \<^verbatim>\<open>ValueError\<close> when there is none), the status event.
\<close>

definition unregister_job :: "string \<Rightarrow> env \<Rightarrow> state \<Rightarrow> string \<Rightarrow> retval outcome" where
  "unregister_job desc e s prov =
     (let s0 = emit (LoggerDebug (FinishedSyncing desc prov)) s
      in if (prov, desc) \<in> set (running_sync_jobs s0)
         then (let s1 = s0\<lparr>running_sync_jobs := remove1 (prov, desc) (running_sync_jobs s0)\<rparr>
               in and_then (call e (SignalEvent (EVENT_MUSIC_SYNC_STATUS e) (running_sync_jobs s1)) s1)
                    (\<lambda>_ s2. Returned PyNone s2))
         else Raised ValueError s0)"

text \<open>
  \<^verbatim>\<open>async_wrapped\<close>. The wrapped function is awaited between registration and
  removal with nothing that catches what it raises, so an exception of \<open>func\<close> leaves
  through \<open>and_then\<close> and the removal is not reached.
\<close>

definition sync_task ::
  "string \<Rightarrow> (env \<Rightarrow> state \<Rightarrow> string \<Rightarrow> retval outcome) \<Rightarrow> env \<Rightarrow> state \<Rightarrow> string \<Rightarrow> retval outcome" where
  "sync_task desc func e s prov =
     (if already_running (running_sync_jobs s) prov desc
      then Returned PyNone (emit (LoggerDebug (AlreadyRunning desc prov)) s)
      else and_then (register_job desc e s prov)
             (\<lambda>_ s1. and_then (func e s1 prov)
                (\<lambda>_ s2. unregister_job desc e s2 prov)))"

subsection \<open>The per-media-type syncers\<close>

text \<open>
  The deletion loop, which the five syncers repeat word for word but for the media type:
  every previous id that is not among the current ones is removed from the library.
\<close>

fun process_deletions ::
  "env \<Rightarrow> media_type \<Rightarrow> string \<Rightarrow> string list \<Rightarrow> string list \<Rightarrow> state \<Rightarrow> unit outcome" where
  "process_deletions e mt provider_id [] cur_db_ids s = Returned () s"
| "process_deletions e mt provider_id (db_id # prev_db_ids) cur_db_ids s =
     (if db_id \<notin> set cur_db_ids
      then and_then (call e (DbRemoveFromLibrary db_id mt provider_id) s)
             (\<lambda>_ s1. process_deletions e mt provider_id prev_db_ids cur_db_ids s1)
      else process_deletions e mt provider_id prev_db_ids cur_db_ids s)"

text \<open>The item loop of \<^verbatim>\<open>async_library_artists_sync\<close> (lines 266 to 271).\<close>

fun artists_loop ::
  "env \<Rightarrow> string \<Rightarrow> media_item list \<Rightarrow> string list \<Rightarrow> state \<Rightarrow> string list outcome" where
  "artists_loop e provider_id [] cur_db_ids s = Returned cur_db_ids s"
| "artists_loop e provider_id (item # items) cur_db_ids s =
     and_then (call e (MusicGet Artist (item_id item) provider_id) s)
       (\<lambda>_ s1. let db_item = music_async_get_artist e (item_id item) provider_id
                in and_then (call e (DbAddToLibrary (item_id db_item) Artist provider_id) s1)
                     (\<lambda>_ s2. artists_loop e provider_id items (cur_db_ids @ [item_id db_item]) s2))"

text \<open>
  The body of \<^verbatim>\<open>async_library_artists_sync\<close>. The provider is looked up first and
  used only after the cache has been read; \<^verbatim>\<open>None\<close> has no
  \<^verbatim>\<open>async_get_library_artists\<close>.
\<close>

definition library_artists_sync_body :: "env \<Rightarrow> state \<Rightarrow> string \<Rightarrow> retval outcome" where
  "library_artists_sync_body e s provider_id =
     (let music_provider = get_provider e provider_id;
          cache_key = ''library_artists_'' @ provider_id
      in and_then (cache_async_get e cache_key [] s)
           (\<lambda>prev_db_ids s1.
              case music_provider of
                None \<Rightarrow> Raised AttributeError s1
              | Some mp \<Rightarrow>
                  and_then (call e (ProvGetLibrary provider_id Artist) s1)
                    (\<lambda>_ s2. and_then (artists_loop e provider_id (library_artists mp) [] s2)
                       (\<lambda>cur_db_ids s3.
                          and_then (process_deletions e Artist provider_id prev_db_ids cur_db_ids s3)
                            (\<lambda>_ s4. and_then (cache_async_set e cache_key cur_db_ids s4)
                               (\<lambda>_ s5. Returned PyNone s5))))))"

definition async_library_artists_sync :: "env \<Rightarrow> state \<Rightarrow> string \<Rightarrow> retval outcome" where
  "async_library_artists_sync = sync_task ''artists'' library_artists_sync_body"

text \<open>
  The loop that albums and playlists run over their tracks (lines 298 to 306 and 360 to
  368): a track that is not available is matched again when the database owns it and
  added otherwise.
\<close>

fun precache_tracks :: "env \<Rightarrow> media_item list \<Rightarrow> state \<Rightarrow> unit outcome" where
  "precache_tracks e [] s = Returned () s"
| "precache_tracks e (t # ts) s =
     (if \<not> available t
      then (if provider t = ''database''
            then and_then (call e (MusicMatchTrack t) s) (\<lambda>_ s1. precache_tracks e ts s1)
            else and_then (call e (MusicAddTrack t) s) (\<lambda>_ s1. precache_tracks e ts s1))
      else precache_tracks e ts s)"

text \<open>The item loop of \<^verbatim>\<open>async_library_albums_sync\<close> (lines 288 to 306).\<close>

fun albums_loop ::
  "env \<Rightarrow> string \<Rightarrow> media_item list \<Rightarrow> string list \<Rightarrow> state \<Rightarrow> string list outcome" where
  "albums_loop e provider_id [] cur_db_ids s = Returned cur_db_ids s"
| "albums_loop e provider_id (item # items) cur_db_ids s =
     and_then (call e (MusicGet Album (item_id item) provider_id) s)
       (\<lambda>_ s1. let found = music_async_get_album e (item_id item) provider_id
                in and_then
                     (if available found \<noteq> available item
                      then and_then (call e (MusicMatchAlbum found) s1)
                             (\<lambda>_ s2. Returned (music_async_match_album e found) s2)
                      else Returned found s1)
                     (\<lambda>db_album s2.
                        and_then (call e (DbAddToLibrary (item_id db_album) Album provider_id) s2)
                          (\<lambda>_ s3. and_then (call e (MusicGetAlbumTracks (item_id item) provider_id) s3)
                             (\<lambda>_ s4. and_then
                                  (precache_tracks e
                                     (music_async_get_album_tracks e (item_id item) provider_id) s4)
                                  (\<lambda>_ s5. albums_loop e provider_id items
                                              (cur_db_ids @ [item_id db_album]) s5)))))"

definition library_albums_sync_body :: "env \<Rightarrow> state \<Rightarrow> string \<Rightarrow> retval outcome" where
  "library_albums_sync_body e s provider_id =
     (let music_provider = get_provider e provider_id;
          cache_key = ''library_albums_'' @ provider_id
      in and_then (cache_async_get e cache_key [] s)
           (\<lambda>prev_db_ids s1.
              case music_provider of
                None \<Rightarrow> Raised AttributeError s1
              | Some mp \<Rightarrow>
                  and_then (call e (ProvGetLibrary provider_id Album) s1)
                    (\<lambda>_ s2. and_then (albums_loop e provider_id (library_albums mp) [] s2)
                       (\<lambda>cur_db_ids s3.
                          and_then (process_deletions e Album provider_id prev_db_ids cur_db_ids s3)
                            (\<lambda>_ s4. and_then (cache_async_set e cache_key cur_db_ids s4)
                               (\<lambda>_ s5. Returned PyNone s5))))))"

definition async_library_albums_sync :: "env \<Rightarrow> state \<Rightarrow> string \<Rightarrow> retval outcome" where
  "async_library_albums_sync = sync_task ''albums'' library_albums_sync_body"

text \<open>
  The item loop of \<^verbatim>\<open>async_library_tracks_sync\<close> (lines 323 to 332). Here, and
  only here, the add-to-library call is guarded by
  \<^verbatim>\<open>if db_item.item_id not in prev_db_ids\<close>.
\<close>

fun tracks_loop ::
  "env \<Rightarrow> string \<Rightarrow> string list \<Rightarrow> media_item list \<Rightarrow> string list \<Rightarrow> state \<Rightarrow> string list outcome" where
  "tracks_loop e provider_id prev_db_ids [] cur_db_ids s = Returned cur_db_ids s"
| "tracks_loop e provider_id prev_db_ids (item # items) cur_db_ids s =
     and_then (call e (MusicGet Track (item_id item) provider_id) s)
       (\<lambda>_ s1. let found = music_async_get_track e (item_id item) provider_id
                in and_then
                     (if available found \<noteq> available item
                      then and_then (call e (MusicAddTrack item) s1)
                             (\<lambda>_ s2. Returned (music_async_add_track e item) s2)
                      else Returned found s1)
                     (\<lambda>db_item s2.
                        and_then
                          (if item_id db_item \<notin> set prev_db_ids
                           then call e (DbAddToLibrary (item_id db_item) Track provider_id) s2
                           else Returned () s2)
                          (\<lambda>_ s3. tracks_loop e provider_id prev_db_ids items
                                      (cur_db_ids @ [item_id db_item]) s3)))"

definition library_tracks_sync_body :: "env \<Rightarrow> state \<Rightarrow> string \<Rightarrow> retval outcome" where
  "library_tracks_sync_body e s provider_id =
     (let music_provider = get_provider e provider_id;
          cache_key = ''library_tracks_'' @ provider_id
      in and_then (cache_async_get e cache_key [] s)
           (\<lambda>prev_db_ids s1.
              case music_provider of
                None \<Rightarrow> Raised AttributeError s1
              | Some mp \<Rightarrow>
                  and_then (call e (ProvGetLibrary provider_id Track) s1)
                    (\<lambda>_ s2. and_then (tracks_loop e provider_id prev_db_ids (library_tracks mp) [] s2)
                       (\<lambda>cur_db_ids s3.
                          and_then (process_deletions e Track provider_id prev_db_ids cur_db_ids s3)
                            (\<lambda>_ s4. and_then (cache_async_set e cache_key cur_db_ids s4)
                               (\<lambda>_ s5. Returned PyNone s5))))))"

definition async_library_tracks_sync :: "env \<Rightarrow> state \<Rightarrow> string \<Rightarrow> retval outcome" where
  "async_library_tracks_sync = sync_task ''tracks'' library_tracks_sync_body"

text \<open>
  The item loop of \<^verbatim>\<open>async_library_playlists_sync\<close> (lines 349 to 368).
  \<^verbatim>\<open>async_get_playlist\<close> may return \<^verbatim>\<open>None\<close> (the playlist editors test
  for it), which has no \<^verbatim>\<open>checksum\<close>. The add-to-library call is given
  \<^verbatim>\<open>playlist.provider\<close>, the provider field of the fetched playlist.
\<close>

fun playlists_loop ::
  "env \<Rightarrow> string \<Rightarrow> playlist list \<Rightarrow> string list \<Rightarrow> state \<Rightarrow> string list outcome" where
  "playlists_loop e provider_id [] cur_db_ids s = Returned cur_db_ids s"
| "playlists_loop e provider_id (pl # pls) cur_db_ids s =
     and_then (call e (MusicGet Playlist (item_id pl) provider_id) s)
       (\<lambda>_ s1. case music_async_get_playlist e (item_id pl) provider_id of
                  None \<Rightarrow> Raised AttributeError s1
                | Some found \<Rightarrow>
                    and_then
                      (if checksum found \<noteq> checksum pl
                       then and_then (call e (DbAddPlaylist pl) s1)
                              (\<lambda>_ s2. Returned (db_async_add_playlist e pl) s2)
                       else Returned found s1)
                      (\<lambda>db_item s2.
                         and_then (call e (DbAddToLibrary (item_id db_item) Playlist (provider pl)) s2)
                           (\<lambda>_ s3. and_then (call e (MusicGetPlaylistTracks (item_id pl) provider_id) s3)
                              (\<lambda>_ s4. and_then
                                   (precache_tracks e
                                      (music_async_get_playlist_tracks e (item_id pl) provider_id) s4)
                                   (\<lambda>_ s5. playlists_loop e provider_id pls
                                               (cur_db_ids @ [item_id db_item]) s5)))))"

definition library_playlists_sync_body :: "env \<Rightarrow> state \<Rightarrow> string \<Rightarrow> retval outcome" where
  "library_playlists_sync_body e s provider_id =
     (let music_provider = get_provider e provider_id;
          cache_key = ''library_playlists_'' @ provider_id
      in and_then (cache_async_get e cache_key [] s)
           (\<lambda>prev_db_ids s1.
              case music_provider of
                None \<Rightarrow> Raised AttributeError s1
              | Some mp \<Rightarrow>
                  and_then (call e (ProvGetLibrary provider_id Playlist) s1)
                    (\<lambda>_ s2. and_then (playlists_loop e provider_id (library_playlists mp) [] s2)
                       (\<lambda>cur_db_ids s3.
                          and_then (process_deletions e Playlist provider_id prev_db_ids cur_db_ids s3)
                            (\<lambda>_ s4. and_then (cache_async_set e cache_key cur_db_ids s4)
                               (\<lambda>_ s5. Returned PyNone s5))))))"

definition async_library_playlists_sync :: "env \<Rightarrow> state \<Rightarrow> string \<Rightarrow> retval outcome" where
  "async_library_playlists_sync = sync_task ''playlists'' library_playlists_sync_body"

text \<open>The item loop of \<^verbatim>\<open>async_library_radios_sync\<close> (lines 385 to 390).\<close>

fun radios_loop ::
  "env \<Rightarrow> string \<Rightarrow> media_item list \<Rightarrow> string list \<Rightarrow> state \<Rightarrow> string list outcome" where
  "radios_loop e provider_id [] cur_db_ids s = Returned cur_db_ids s"
| "radios_loop e provider_id (item # items) cur_db_ids s =
     and_then (call e (MusicGet Radio (item_id item) provider_id) s)
       (\<lambda>_ s1. let db_radio = music_async_get_radio e (item_id item) provider_id
                in and_then (call e (DbAddToLibrary (item_id db_radio) Radio provider_id) s1)
                     (\<lambda>_ s2. radios_loop e provider_id items (cur_db_ids @ [item_id db_radio]) s2))"

definition library_radios_sync_body :: "env \<Rightarrow> state \<Rightarrow> string \<Rightarrow> retval outcome" where
  "library_radios_sync_body e s provider_id =
     (let music_provider = get_provider e provider_id;
          cache_key = ''library_radios_'' @ provider_id
      in and_then (cache_async_get e cache_key [] s)
           (\<lambda>prev_db_ids s1.
              case music_provider of
                None \<Rightarrow> Raised AttributeError s1
              | Some mp \<Rightarrow>
                  and_then (call e (ProvGetLibrary provider_id Radio) s1)
                    (\<lambda>_ s2. and_then (radios_loop e provider_id (library_radios mp) [] s2)
                       (\<lambda>cur_db_ids s3.
                          and_then (process_deletions e Radio provider_id prev_db_ids cur_db_ids s3)
                            (\<lambda>_ s4. and_then (cache_async_set e cache_key cur_db_ids s4)
                               (\<lambda>_ s5. Returned PyNone s5))))))"

definition async_library_radios_sync :: "env \<Rightarrow> state \<Rightarrow> string \<Rightarrow> retval outcome" where
  "async_library_radios_sync = sync_task ''radios'' library_radios_sync_body"

subsection \<open>The coordinator\<close>

text \<open>
  \<^verbatim>\<open>async_music_provider_sync\<close>: nothing for an unknown provider; otherwise the
  five tests of \<^verbatim>\<open>supported_mediatypes\<close> in the order of the source: albums,
  tracks, artists, playlists, radios.
\<close>

definition async_music_provider_sync :: "env \<Rightarrow> state \<Rightarrow> string \<Rightarrow> retval outcome" where
  "async_music_provider_sync e s prov =
     (case get_provider e prov of
        None \<Rightarrow> Returned PyNone s
      | Some p \<Rightarrow>
          and_then (if Album \<in> set (supported_mediatypes p)
                    then async_library_albums_sync e s prov else Returned PyNone s)
            (\<lambda>_ s1. and_then (if Track \<in> set (supported_mediatypes p)
                               then async_library_tracks_sync e s1 prov else Returned PyNone s1)
               (\<lambda>_ s2. and_then (if Artist \<in> set (supported_mediatypes p)
                                  then async_library_artists_sync e s2 prov else Returned PyNone s2)
                  (\<lambda>_ s3. and_then (if Playlist \<in> set (supported_mediatypes p)
                                     then async_library_playlists_sync e s3 prov else Returned PyNone s3)
                     (\<lambda>_ s4. and_then (if Radio \<in> set (supported_mediatypes p)
                                        then async_library_radios_sync e s4 prov else Returned PyNone s4)
                        (\<lambda>_ s5. Returned PyNone s5))))))"

text \<open>
  \<^verbatim>\<open>mass_event\<close>: the provider is looked up and its \<^verbatim>\<open>type\<close> read with
  no test for \<^verbatim>\<open>None\<close>; a music provider gets a sync job scheduled, which the
  job runner runs later.
\<close>

definition mass_event :: "env \<Rightarrow> state \<Rightarrow> string \<Rightarrow> string \<Rightarrow> retval outcome" where
  "mass_event e s msg msg_details =
     (if msg = EVENT_PROVIDER_REGISTERED e
      then (case get_provider e msg_details of
              None \<Rightarrow> Raised AttributeError s
            | Some p \<Rightarrow>
                if prov_type p = MUSIC_PROVIDER
                then and_then (call e (AddJob msg_details) s) (\<lambda>_ s1. Returned PyNone s1)
                else Returned PyNone s)
      else Returned PyNone s)"

subsection \<open>Editing the tracks of a playlist\<close>

text \<open>Lines 164 to 169: the ids already in the playlist, every provider reference included.\<close>

fun cur_playlist_track_ids_loop :: "media_item list \<Rightarrow> string list \<Rightarrow> string list" where
  "cur_playlist_track_ids_loop [] acc = acc"
| "cur_playlist_track_ids_loop (item # items) acc =
     cur_playlist_track_ids_loop items (acc @ [item_id item] @ map ref_item_id (provider_ids item))"

text \<open>Lines 173 to 176: the duplicate test of one track.\<close>

fun already_exists_loop :: "provider_ref list \<Rightarrow> string list \<Rightarrow> bool \<Rightarrow> bool" where
  "already_exists_loop [] cur already_exists = already_exists"
| "already_exists_loop (track_prov # rest) cur already_exists =
     already_exists_loop rest cur (if ref_item_id track_prov \<in> set cur then True else already_exists)"

text \<open>
  Lines 183 to 193, given the versions already sorted: the first version decides unless
  it is on another provider and the playlist is not on \<^verbatim>\<open>"file"\<close>.
\<close>

fun pick_version :: "string \<Rightarrow> provider_ref list \<Rightarrow> string option" where
  "pick_version playlist_provider [] = None"
| "pick_version playlist_provider (track_version # rest) =
     (if ref_provider track_version = playlist_provider
      then Some (ref_item_id track_version)
      else if playlist_provider = ''file''
      then Some (ref_provider track_version @ ''://'' @ ref_item_id track_version)
      else pick_version playlist_provider rest)"

text \<open>
  \<^verbatim>\<open>sorted(track.provider_ids, key=lambda x: x.quality, reverse=True)\<close>: Python's
  sort is stable also when reversed, so it is the stable ascending sort on the negated
  quality.
\<close>

definition sorted_by_quality :: "provider_ref list \<Rightarrow> provider_ref list" where
  "sorted_by_quality refs = sort_key (\<lambda>x. - quality x) refs"

text \<open>Lines 170 to 193: the loop over the tracks to add.\<close>

fun track_ids_to_add_loop ::
  "string \<Rightarrow> string list \<Rightarrow> media_item list \<Rightarrow> string list \<Rightarrow> string list" where
  "track_ids_to_add_loop playlist_provider cur [] acc = acc"
| "track_ids_to_add_loop playlist_provider cur (track # tracks) acc =
     (if already_exists_loop (provider_ids track) cur (item_id track \<in> set cur)
      then track_ids_to_add_loop playlist_provider cur tracks acc
      else (case pick_version playlist_provider (sorted_by_quality (provider_ids track)) of
              None \<Rightarrow> track_ids_to_add_loop playlist_provider cur tracks acc
            | Some i \<Rightarrow> track_ids_to_add_loop playlist_provider cur tracks (acc @ [i])))"

definition async_add_playlist_tracks ::
  "env \<Rightarrow> state \<Rightarrow> string \<Rightarrow> media_item list \<Rightarrow> retval outcome" where
  "async_add_playlist_tracks e s db_playlist_id tracks =
     and_then (call e (MusicGet Playlist db_playlist_id ''database'') s)
       (\<lambda>_ s1.
          case music_async_get_playlist e db_playlist_id ''database'' of
            None \<Rightarrow> Returned (PyBool False) s1
          | Some pl \<Rightarrow>
              if \<not> is_editable pl then Returned (PyBool False) s1
              else (case provider_ids pl of
                      [] \<Rightarrow> Raised IndexError s1
                    | playlist_prov # _ \<Rightarrow>
                        and_then
                          (call e (MusicGetPlaylistTracks (ref_item_id playlist_prov)
                                     (ref_provider playlist_prov)) s1)
                          (\<lambda>_ s2.
                             let cur = cur_playlist_track_ids_loop
                                         (music_async_get_playlist_tracks e (ref_item_id playlist_prov)
                                            (ref_provider playlist_prov)) [];
                                 track_ids_to_add =
                                   track_ids_to_add_loop (ref_provider playlist_prov) cur tracks []
                             in if track_ids_to_add \<noteq> []
                                then and_then
                                       (call e (DbUpdatePlaylist (item_id pl) ''checksum'' (time_str e)) s2)
                                       (\<lambda>_ s3.
                                          case get_provider e (ref_provider playlist_prov) of
                                            None \<Rightarrow> Raised AttributeError s3
                                          | Some p \<Rightarrow>
                                              and_then
                                                (call e (ProvAddPlaylistTracks (ref_provider playlist_prov)
                                                           (ref_item_id playlist_prov) track_ids_to_add) s3)
                                                (\<lambda>_ s4. Returned
                                                            (add_playlist_tracks_result p
                                                               (ref_item_id playlist_prov) track_ids_to_add)
                                                            s4))
                                else Returned (PyBool False) s2)))"

text \<open>Lines 215 to 220: every reference of every track on the playlist's provider.\<close>

fun refs_on_provider :: "string \<Rightarrow> provider_ref list \<Rightarrow> string list \<Rightarrow> string list" where
  "refs_on_provider playlist_provider [] acc = acc"
| "refs_on_provider playlist_provider (track_provider # rest) acc =
     refs_on_provider playlist_provider rest
       (if ref_provider track_provider = playlist_provider
        then acc @ [ref_item_id track_provider] else acc)"

fun track_ids_to_remove_loop :: "string \<Rightarrow> media_item list \<Rightarrow> string list \<Rightarrow> string list" where
  "track_ids_to_remove_loop playlist_provider [] acc = acc"
| "track_ids_to_remove_loop playlist_provider (track # tracks) acc =
     track_ids_to_remove_loop playlist_provider tracks
       (refs_on_provider playlist_provider (provider_ids track) acc)"

text \<open>
  \<^verbatim>\<open>async_remove_playlist_tracks\<close>: the function has no \<^verbatim>\<open>return\<close> after
  the last \<^verbatim>\<open>if\<close>, so with nothing to remove it returns \<^verbatim>\<open>None\<close>.
\<close>

definition async_remove_playlist_tracks ::
  "env \<Rightarrow> state \<Rightarrow> string \<Rightarrow> media_item list \<Rightarrow> retval outcome" where
  "async_remove_playlist_tracks e s db_playlist_id tracks =
     and_then (call e (MusicGet Playlist db_playlist_id ''database'') s)
       (\<lambda>_ s1.
          case music_async_get_playlist e db_playlist_id ''database'' of
            None \<Rightarrow> Returned (PyBool False) s1
          | Some pl \<Rightarrow>
              if \<not> is_editable pl then Returned (PyBool False) s1
              else (case provider_ids pl of
                      [] \<Rightarrow> Raised IndexError s1
                    | prov_playlist # _ \<Rightarrow>
                        let track_ids_to_remove =
                              track_ids_to_remove_loop (ref_provider prov_playlist) tracks []
                        in if track_ids_to_remove \<noteq> []
                           then and_then
                                  (call e (DbUpdatePlaylist (item_id pl) ''checksum'' (time_str e)) s1)
                                  (\<lambda>_ s2.
                                     case get_provider e (ref_provider prov_playlist) of
                                       None \<Rightarrow> Raised AttributeError s2
                                     | Some p \<Rightarrow>
                                         and_then
                                           (call e (ProvRemovePlaylistTracks (ref_provider prov_playlist)
                                                      (ref_item_id prov_playlist) track_ids_to_remove) s2)
                                           (\<lambda>_ s3. Returned
                                                       (remove_playlist_tracks_result p
                                                          (ref_item_id prov_playlist) track_ids_to_remove)
                                                       s3))
                           else Returned PyNone s1))"

subsection \<open>Reading a run: the calls it made, the ids it saw\<close>

text \<open>The state after some more calls, and the calls made between two states.\<close>

definition add_calls :: "call list \<Rightarrow> state \<Rightarrow> state" where
  "add_calls cs s = s\<lparr>trace := trace s @ cs\<rparr>"

definition new_calls :: "state \<Rightarrow> state \<Rightarrow> call list" where
  "new_calls s s' = drop (length (trace s)) (trace s')"

text \<open>What \<^verbatim>\<open>cache.async_get(key, default=[])\<close> finds in a state.\<close>

definition cached_ids :: "state \<Rightarrow> string \<Rightarrow> string list" where
  "cached_ids s key = (case cache s key of None \<Rightarrow> [] | Some v \<Rightarrow> v)"

fun is_remove :: "call \<Rightarrow> bool" where
  "is_remove (DbRemoveFromLibrary i mt p) = True"
| "is_remove c = False"

fun is_add :: "call \<Rightarrow> bool" where
  "is_add (DbAddToLibrary i mt p) = True"
| "is_add c = False"

fun is_cache_set :: "call \<Rightarrow> bool" where
  "is_cache_set (CacheSet k v) = True"
| "is_cache_set c = False"

fun is_checksum_update :: "call \<Rightarrow> bool" where
  "is_checksum_update (DbUpdatePlaylist i f v) = True"
| "is_checksum_update c = False"

fun is_provider_edit :: "call \<Rightarrow> bool" where
  "is_provider_edit (ProvAddPlaylistTracks p i ids) = True"
| "is_provider_edit (ProvRemovePlaylistTracks p i ids) = True"
| "is_provider_edit c = False"

text \<open>
  The calls a syncer makes before its deletion loop: the cache read, the catalog listing
  and what the item loop does with each item.
\<close>

fun fetch_phase_call :: "call \<Rightarrow> bool" where
  "fetch_phase_call (CacheGet k) = True"
| "fetch_phase_call (ProvGetLibrary p mt) = True"
| "fetch_phase_call (MusicGet mt i p) = True"
| "fetch_phase_call (MusicMatchAlbum a) = True"
| "fetch_phase_call (MusicMatchTrack t) = True"
| "fetch_phase_call (MusicAddTrack t) = True"
| "fetch_phase_call (MusicGetAlbumTracks i p) = True"
| "fetch_phase_call (MusicGetPlaylistTracks i p) = True"
| "fetch_phase_call (DbAddPlaylist pl) = True"
| "fetch_phase_call (DbAddToLibrary i mt p) = True"
| "fetch_phase_call c = False"

text \<open>
  An exception that stopped a syncer before its deletion loop: a failed call of the fetch
  phase, or the \<^verbatim>\<open>AttributeError\<close> of a missing provider or playlist.
\<close>

fun raised_before_deletions :: "error \<Rightarrow> bool" where
  "raised_before_deletions (CallFailed c) = fetch_phase_call c"
| "raised_before_deletions AttributeError = True"
| "raised_before_deletions err = False"

text \<open>
  The decorated syncers that were entered, in order, as (description, provider id): each
  entry of \<^verbatim>\<open>async_wrapped\<close> logs either the start message or the
  already-running message.
\<close>

fun invoked :: "call list \<Rightarrow> (string \<times> string) list" where
  "invoked [] = []"
| "invoked (LoggerDebug (StartSyncjob d p) # cs) = (d, p) # invoked cs"
| "invoked (LoggerDebug (AlreadyRunning d p) # cs) = (d, p) # invoked cs"
| "invoked (c # cs) = invoked cs"

text \<open>The description, the cache key and the decorated syncer of each media type.\<close>

fun desc_of :: "media_type \<Rightarrow> string" where
  "desc_of Artist = ''artists''"
| "desc_of Album = ''albums''"
| "desc_of Track = ''tracks''"
| "desc_of Playlist = ''playlists''"
| "desc_of Radio = ''radios''"

definition cache_key_of :: "media_type \<Rightarrow> string \<Rightarrow> string" where
  "cache_key_of mt provider_id = ''library_'' @ desc_of mt @ ''_'' @ provider_id"

fun sync_of :: "media_type \<Rightarrow> env \<Rightarrow> state \<Rightarrow> string \<Rightarrow> retval outcome" where
  "sync_of Artist = async_library_artists_sync"
| "sync_of Album = async_library_albums_sync"
| "sync_of Track = async_library_tracks_sync"
| "sync_of Playlist = async_library_playlists_sync"
| "sync_of Radio = async_library_radios_sync"

text \<open>
  The local item each catalog item resolves to, as the item loops compute it, and the list
  of their ids: the \<^verbatim>\<open>cur_db_ids\<close> of a run in which no call fails. A playlist
  the music manager does not know has none.
\<close>

definition resolved_album :: "env \<Rightarrow> string \<Rightarrow> media_item \<Rightarrow> media_item" where
  "resolved_album e provider_id item =
     (let found = music_async_get_album e (item_id item) provider_id
      in if available found \<noteq> available item then music_async_match_album e found else found)"

definition resolved_track :: "env \<Rightarrow> string \<Rightarrow> media_item \<Rightarrow> media_item" where
  "resolved_track e provider_id item =
     (let found = music_async_get_track e (item_id item) provider_id
      in if available found \<noteq> available item then music_async_add_track e item else found)"

definition resolved_playlist :: "env \<Rightarrow> string \<Rightarrow> playlist \<Rightarrow> playlist option" where
  "resolved_playlist e provider_id pl =
     (case music_async_get_playlist e (item_id pl) provider_id of
        None \<Rightarrow> None
      | Some found \<Rightarrow>
          Some (if checksum found \<noteq> checksum pl then db_async_add_playlist e pl else found))"

fun current_ids :: "env \<Rightarrow> music_provider \<Rightarrow> string \<Rightarrow> media_type \<Rightarrow> string list option" where
  "current_ids e mp provider_id Artist =
     Some (map (\<lambda>item. item_id (music_async_get_artist e (item_id item) provider_id))
             (library_artists mp))"
| "current_ids e mp provider_id Album =
     Some (map (\<lambda>item. item_id (resolved_album e provider_id item)) (library_albums mp))"
| "current_ids e mp provider_id Track =
     Some (map (\<lambda>item. item_id (resolved_track e provider_id item)) (library_tracks mp))"
| "current_ids e mp provider_id Playlist =
     those (map (\<lambda>pl. map_option item_id (resolved_playlist e provider_id pl))
              (library_playlists mp))"
| "current_ids e mp provider_id Radio =
     Some (map (\<lambda>item. item_id (music_async_get_radio e (item_id item) provider_id))
             (library_radios mp))"

text \<open>
  The ids a playlist already holds, and the duplicate test of a candidate track, written
  without the loops.
\<close>

definition existing_ids :: "media_item list \<Rightarrow> string list" where
  "existing_ids items =
     concat (map (\<lambda>item. item_id item # map ref_item_id (provider_ids item)) items)"

definition is_duplicate :: "string list \<Rightarrow> media_item \<Rightarrow> bool" where
  "is_duplicate cur track \<longleftrightarrow>
     item_id track \<in> set cur \<or> list_ex (\<lambda>r. ref_item_id r \<in> set cur) (provider_ids track)"

subsection \<open>The common shape of the five syncers\<close>

text \<open>
  The five bodies differ only in the media type, the cache key and the item loop. This is
  the body with those three left open; each body of the source is an instance of it
  (lemmas \<open>artists_body_eq\<close> to \<open>radios_body_eq\<close> below).
\<close>

definition sync_body_with ::
  "media_type \<Rightarrow> (music_provider \<Rightarrow> string list \<Rightarrow> state \<Rightarrow> string list outcome) \<Rightarrow>
   env \<Rightarrow> state \<Rightarrow> string \<Rightarrow> retval outcome" where
  "sync_body_with mt run_loop e s provider_id =
     (let music_provider = get_provider e provider_id;
          cache_key = cache_key_of mt provider_id
      in and_then (cache_async_get e cache_key [] s)
           (\<lambda>prev_db_ids s1.
              case music_provider of
                None \<Rightarrow> Raised AttributeError s1
              | Some mp \<Rightarrow>
                  and_then (call e (ProvGetLibrary provider_id mt) s1)
                    (\<lambda>_ s2. and_then (run_loop mp prev_db_ids s2)
                       (\<lambda>cur_db_ids s3.
                          and_then (process_deletions e mt provider_id prev_db_ids cur_db_ids s3)
                            (\<lambda>_ s4. and_then (cache_async_set e cache_key cur_db_ids s4)
                               (\<lambda>_ s5. Returned PyNone s5))))))"

fun item_loop_of ::
  "media_type \<Rightarrow> env \<Rightarrow> string \<Rightarrow> music_provider \<Rightarrow> string list \<Rightarrow> state \<Rightarrow> string list outcome" where
  "item_loop_of Artist e p mp prev s = artists_loop e p (library_artists mp) [] s"
| "item_loop_of Album e p mp prev s = albums_loop e p (library_albums mp) [] s"
| "item_loop_of Track e p mp prev s = tracks_loop e p prev (library_tracks mp) [] s"
| "item_loop_of Playlist e p mp prev s = playlists_loop e p (library_playlists mp) [] s"
| "item_loop_of Radio e p mp prev s = radios_loop e p (library_radios mp) [] s"

text \<open>The value a call returned, if it returned.\<close>

fun returned_value :: "'a outcome \<Rightarrow> 'a option" where
  "returned_value (Returned v s) = Some v"
| "returned_value (Raised err s) = None"

subsection \<open>Relations between the state before and after\<close>

text \<open>
  \<open>steps P s s'\<close>: from \<open>s\<close> to \<open>s'\<close> the list of running jobs is the same and the
  trace has grown by calls that satisfy \<open>P\<close>.
\<close>

definition steps :: "(call \<Rightarrow> bool) \<Rightarrow> state \<Rightarrow> state \<Rightarrow> bool" where
  "steps P s s' \<longleftrightarrow>
     running_sync_jobs s' = running_sync_jobs s \<and>
     (\<exists>tr. trace s' = trace s @ tr \<and> list_all P tr)"

text \<open>The calls of a syncer's body: anything but the decorator's log lines and events.\<close>

fun body_call :: "call \<Rightarrow> bool" where
  "body_call (LoggerDebug m) = False"
| "body_call (SignalEvent n j) = False"
| "body_call c = True"

text \<open>
  \<open>fetch_outcome s r\<close>: the outcome \<open>r\<close> of a run from \<open>s\<close> made only calls of the
  fetch phase, left the cache alone and, if it raised, raised before the deletions.
  \<open>late_outcome r\<close>: if \<open>r\<close> raised, it was not before the deletions.
  \<open>aborts_clean s r\<close>: if \<open>r\<close> raised before the deletions, only calls of the fetch
  phase were made and the cache is as it was.
\<close>

definition fetch_outcome :: "state \<Rightarrow> 'a outcome \<Rightarrow> bool" where
  "fetch_outcome s r \<longleftrightarrow>
     steps fetch_phase_call s (state_of r) \<and> cache (state_of r) = cache s \<and>
     (case r of Raised err _ \<Rightarrow> raised_before_deletions err | Returned _ _ \<Rightarrow> True)"





subsection \<open>A small world to run the manager in\<close>

text \<open>
  One provider \<^verbatim>\<open>p1\<close> whose listings return a given catalog, a music manager
  that resolves every item id to the local item of the same id, and a cache holding one
  key.
\<close>

definition example_item :: "string \<Rightarrow> media_item" where
  "example_item i = \<lparr>item_id = i, provider = ''database'', provider_ids = [], available = True\<rparr>"

definition example_provider :: "media_type list \<Rightarrow> media_item list \<Rightarrow> music_provider" where
  "example_provider supported catalog =
     \<lparr>prov_id = ''p1'', prov_type = MUSIC_PROVIDER, supported_mediatypes = supported,
      library_artists = catalog, library_albums = catalog, library_tracks = catalog,
      library_playlists = [], library_radios = [],
      add_playlist_tracks_result = (\<lambda>_ _. PyBool True),
      remove_playlist_tracks_result = (\<lambda>_ _. PyBool True)\<rparr>"

definition example_env ::
  "music_provider \<Rightarrow> (string \<Rightarrow> string \<Rightarrow> playlist option) \<Rightarrow>
   (string \<Rightarrow> string \<Rightarrow> media_item list) \<Rightarrow> (call \<Rightarrow> bool) \<Rightarrow> env" where
  "example_env prov playlists playlist_tracks failing =
     \<lparr>get_provider = (\<lambda>p. if p = prov_id prov then Some prov else None),
      music_async_get_artist = (\<lambda>i p. example_item i),
      music_async_get_album = (\<lambda>i p. example_item i),
      music_async_get_track = (\<lambda>i p. example_item i),
      music_async_get_radio = (\<lambda>i p. example_item i),
      music_async_get_playlist = playlists,
      music_async_match_album = (\<lambda>a. a),
      music_async_add_track = (\<lambda>t. t),
      music_async_get_album_tracks = (\<lambda>i p. []),
      music_async_get_playlist_tracks = playlist_tracks,
      db_async_add_playlist = (\<lambda>pl. pl),
      time_str = ''1600000000.0'',
      EVENT_MUSIC_SYNC_STATUS = ''music sync status'',
      EVENT_PROVIDER_REGISTERED = ''provider registered'',
      fails = failing\<rparr>"

definition example_state :: "string \<Rightarrow> string list \<Rightarrow> state" where
  "example_state key prev = \<lparr>running_sync_jobs = [], cache = [key \<mapsto> prev], trace = []\<rparr>"


text \<open>
  The same world with the catalog \<open>A, C\<close> behind a provider that supports artists and
  albums; the argument says which calls fail.
\<close>

definition two_artists_env :: "(call \<Rightarrow> bool) \<Rightarrow> env" where
  "two_artists_env failing =
     example_env (example_provider [Artist, Album] [example_item ''A'', example_item ''C''])
       (\<lambda>i p. None) (\<lambda>i p. []) failing"

text \<open>
  \<open>invokes l s r\<close>: between \<open>s\<close> and the end of \<open>r\<close> the decorated syncers entered
  were exactly \<open>l\<close>, in this order.
\<close>

definition invokes :: "(string \<times> string) list \<Rightarrow> state \<Rightarrow> 'a outcome \<Rightarrow> bool" where
  "invokes l s r \<longleftrightarrow> (\<exists>tr. trace (state_of r) = trace s @ tr \<and> invoked tr = l)"

text \<open>
  A world for the playlist editors: the database playlist \<open>7\<close>, editable or not, living
  on a given provider under the id \<open>pl1\<close>; a track with given provider references; the
  tracks the playlist already holds.
\<close>

definition example_playlist :: "string \<Rightarrow> bool \<Rightarrow> playlist" where
  "example_playlist playlist_provider editable =
     \<lparr>item_id = ''7'', provider = ''database'',
      provider_ids = [\<lparr>ref_provider = playlist_provider, ref_item_id = ''pl1'', quality = 0\<rparr>],
      available = True, is_editable = editable, checksum = ''c1''\<rparr>"

definition example_track :: "string \<Rightarrow> provider_ref list \<Rightarrow> media_item" where
  "example_track i refs = \<lparr>item_id = i, provider = ''database'', provider_ids = refs, available = True\<rparr>"

definition playlist_env :: "playlist option \<Rightarrow> string \<Rightarrow> media_item list \<Rightarrow> env" where
  "playlist_env pl playlist_provider existing =
     example_env ((example_provider [] [])\<lparr>prov_id := playlist_provider\<rparr>)
       (\<lambda>i p. if i = ''7'' \<and> p = ''database'' then pl else None)
       (\<lambda>i p. existing) (\<lambda>c. False)"

definition empty_state :: state where
  "empty_state = \<lparr>running_sync_jobs = [], cache = Map.empty, trace = []\<rparr>"

text \<open>
  A provider \<^verbatim>\<open>p1\<close> whose playlist listing returns a playlist that carries another
  provider name in its \<^verbatim>\<open>provider\<close> field.
\<close>

definition relabelled_playlist :: playlist where
  "relabelled_playlist =
     \<lparr>item_id = ''x'', provider = ''other'', provider_ids = [], available = True,
      is_editable = False, checksum = ''c1''\<rparr>"

definition relabelled_env :: env where
  "relabelled_env =
     example_env ((example_provider [Playlist] [])\<lparr>library_playlists := [relabelled_playlist]\<rparr>)
       (\<lambda>i p. Some relabelled_playlist) (\<lambda>i p. []) (\<lambda>c. False)"

section \<open>Properties\<close>

subsection \<open>Calls, traces and the item loops\<close>

lemma call_ok: "\<not> fails e c \<Longrightarrow> call e c s = Returned () (emit c s)"
  by (simp add: call_def)

lemma emit_simps [simp]:
  "running_sync_jobs (emit c s) = running_sync_jobs s"
  "cache (emit c s) = cache s"
  "trace (emit c s) = trace s @ [c]"
  by (simp_all add: emit_def)

lemma add_calls_simps [simp]:
  "running_sync_jobs (add_calls cs s) = running_sync_jobs s"
  "cache (add_calls cs s) = cache s"
  "trace (add_calls cs s) = trace s @ cs"
  by (simp_all add: add_calls_def)

lemma steps_refl: "steps P s s"
  by (simp add: steps_def)

lemma steps_trans: "steps P s s1 \<Longrightarrow> steps P s1 s2 \<Longrightarrow> steps P s s2"
  by (auto simp: steps_def)

lemma steps_mono: "steps P s s' \<Longrightarrow> (\<And>c. P c \<Longrightarrow> Q c) \<Longrightarrow> steps Q s s'"
  by (auto simp: steps_def list_all_iff)

lemma steps_emit: "P c \<Longrightarrow> steps P s (emit c s)"
  by (simp add: steps_def)

lemma steps_call: "P c \<Longrightarrow> steps P s (state_of (call e c s))"
  by (simp add: call_def steps_emit)

lemma steps_and_then:
  assumes "steps P s (state_of m)"
    and "\<And>v s1. m = Returned v s1 \<Longrightarrow> steps P s1 (state_of (f v s1))"
  shows "steps P s (state_of (and_then m f))"
proof (cases m)
  case (Returned v s1)
  with assms show ?thesis by (auto intro: steps_trans)
next
  case (Raised err s1)
  with assms show ?thesis by simp
qed

lemma fetch_outcome_Returned: "fetch_outcome s (Returned v s)"
  by (simp add: fetch_outcome_def steps_refl)

lemma fetch_outcome_AttributeError: "fetch_outcome s (Raised AttributeError s)"
  by (simp add: fetch_outcome_def steps_refl)

lemma fetch_outcome_call: "fetch_phase_call c \<Longrightarrow> fetch_outcome s (call e c s)"
  by (simp add: fetch_outcome_def call_def steps_emit)

lemma fetch_outcome_and_then:
  assumes "fetch_outcome s m"
    and "\<And>v s1. m = Returned v s1 \<Longrightarrow> fetch_outcome s1 (f v s1)"
  shows "fetch_outcome s (and_then m f)"
proof (cases m)
  case (Returned v s1)
  with assms have a: "fetch_outcome s (Returned v s1)" and b: "fetch_outcome s1 (f v s1)"
    by auto
  from a b show ?thesis unfolding Returned
    by (auto simp: fetch_outcome_def intro: steps_trans)
next
  case (Raised err s1)
  with assms show ?thesis by (simp add: fetch_outcome_def)
qed

lemmas fetch_intros =
  fetch_outcome_and_then fetch_outcome_call fetch_outcome_Returned fetch_outcome_AttributeError

lemma precache_tracks_fetch: "fetch_outcome s (precache_tracks e ts s)"
  by (induction ts arbitrary: s) (auto intro!: fetch_intros)

lemma artists_loop_fetch: "fetch_outcome s (artists_loop e p items cur s)"
  by (induction items arbitrary: s cur) (auto intro!: fetch_intros simp: Let_def)

lemma radios_loop_fetch: "fetch_outcome s (radios_loop e p items cur s)"
  by (induction items arbitrary: s cur) (auto intro!: fetch_intros simp: Let_def)

lemma albums_loop_fetch: "fetch_outcome s (albums_loop e p items cur s)"
  by (induction items arbitrary: s cur)
     (auto intro!: fetch_intros precache_tracks_fetch simp: Let_def)

lemma tracks_loop_fetch: "fetch_outcome s (tracks_loop e p prev items cur s)"
  by (induction items arbitrary: s cur) (auto intro!: fetch_intros simp: Let_def)

lemma playlists_loop_fetch: "fetch_outcome s (playlists_loop e p items cur s)"
  by (induction items arbitrary: s cur)
     (auto intro!: fetch_intros precache_tracks_fetch simp: Let_def split: option.splits)

lemma artists_body_eq:
  "library_artists_sync_body = (\<lambda>e s p. sync_body_with Artist (item_loop_of Artist e p) e s p)"
  by (intro ext) (simp add: library_artists_sync_body_def sync_body_with_def cache_key_of_def Let_def cong: option.case_cong)

lemma albums_body_eq:
  "library_albums_sync_body = (\<lambda>e s p. sync_body_with Album (item_loop_of Album e p) e s p)"
  by (intro ext) (simp add: library_albums_sync_body_def sync_body_with_def cache_key_of_def Let_def cong: option.case_cong)

lemma tracks_body_eq:
  "library_tracks_sync_body = (\<lambda>e s p. sync_body_with Track (item_loop_of Track e p) e s p)"
  by (intro ext) (simp add: library_tracks_sync_body_def sync_body_with_def cache_key_of_def Let_def cong: option.case_cong)

lemma playlists_body_eq:
  "library_playlists_sync_body = (\<lambda>e s p. sync_body_with Playlist (item_loop_of Playlist e p) e s p)"
  by (intro ext) (simp add: library_playlists_sync_body_def sync_body_with_def cache_key_of_def Let_def cong: option.case_cong)

lemma radios_body_eq:
  "library_radios_sync_body = (\<lambda>e s p. sync_body_with Radio (item_loop_of Radio e p) e s p)"
  by (intro ext) (simp add: library_radios_sync_body_def sync_body_with_def cache_key_of_def Let_def cong: option.case_cong)

lemma sync_of_eq:
  "sync_of mt =
     sync_task (desc_of mt) (\<lambda>e s p. sync_body_with mt (item_loop_of mt e p) e s p)"
  by (cases mt)
     (simp_all add: async_library_artists_sync_def async_library_albums_sync_def
        async_library_tracks_sync_def async_library_playlists_sync_def
        async_library_radios_sync_def artists_body_eq albums_body_eq tracks_body_eq
        playlists_body_eq radios_body_eq)

lemma item_loop_fetch: "fetch_outcome s (item_loop_of mt e p mp prev s)"
  by (cases mt)
     (simp_all add: artists_loop_fetch albums_loop_fetch tracks_loop_fetch
        playlists_loop_fetch radios_loop_fetch)

lemma and_then_returned:
  "returned_value m = Some v \<Longrightarrow> and_then m f = f v (state_of m)"
  by (cases m) simp_all

lemma precache_tracks_returns:
  "\<forall>c. \<not> fails e c \<Longrightarrow> returned_value (precache_tracks e ts s) = Some ()"
  by (induction ts arbitrary: s) (simp_all add: call_ok)

lemma artists_loop_returns:
  "\<forall>c. \<not> fails e c \<Longrightarrow>
   returned_value (artists_loop e p items cur s) =
     Some (cur @ map (\<lambda>item. item_id (music_async_get_artist e (item_id item) p)) items)"
  by (induction items arbitrary: s cur) (simp_all add: call_ok Let_def)

lemma radios_loop_returns:
  "\<forall>c. \<not> fails e c \<Longrightarrow>
   returned_value (radios_loop e p items cur s) =
     Some (cur @ map (\<lambda>item. item_id (music_async_get_radio e (item_id item) p)) items)"
  by (induction items arbitrary: s cur) (simp_all add: call_ok Let_def)

lemma tracks_loop_returns:
  "\<forall>c. \<not> fails e c \<Longrightarrow>
   returned_value (tracks_loop e p prev items cur s) =
     Some (cur @ map (\<lambda>item. item_id (resolved_track e p item)) items)"
  by (induction items arbitrary: s cur) (simp_all add: call_ok Let_def resolved_track_def)

lemma albums_loop_returns:
  assumes "\<forall>c. \<not> fails e c"
  shows "returned_value (albums_loop e p items cur s) =
     Some (cur @ map (\<lambda>item. item_id (resolved_album e p item)) items)"
  using assms
  by (induction items arbitrary: s cur)
     (simp_all add: call_ok Let_def resolved_album_def
        and_then_returned [OF precache_tracks_returns])

lemma playlists_loop_returns:
  assumes "\<forall>c. \<not> fails e c"
    and "those (map (\<lambda>pl. map_option item_id (resolved_playlist e p pl)) items) = Some ids"
  shows "returned_value (playlists_loop e p items cur s) = Some (cur @ ids)"
  using assms
proof (induction items arbitrary: s cur ids)
  case Nil
  then show ?case by simp
next
  case (Cons pl pls)
  from Cons.prems(2) obtain found rest where
    f: "music_async_get_playlist e (item_id pl) p = Some found" and
    r: "those (map (\<lambda>pl. map_option item_id (resolved_playlist e p pl)) pls) = Some rest" and
    i: "ids = item_id (if checksum found \<noteq> checksum pl then db_async_add_playlist e pl else found) # rest"
    by (auto simp: resolved_playlist_def split: option.splits)
  show ?case
    using Cons.prems(1) Cons.IH [OF Cons.prems(1) r] f i
    by (simp add: call_ok and_then_returned [OF precache_tracks_returns])
qed

lemma item_loop_returns:
  "\<forall>c. \<not> fails e c \<Longrightarrow> current_ids e mp p mt = Some ids \<Longrightarrow>
   returned_value (item_loop_of mt e p mp prev s) = Some ids"
  by (cases mt)
     (auto simp: artists_loop_returns albums_loop_returns tracks_loop_returns
        radios_loop_returns playlists_loop_returns)









lemma cache_async_get_fetch: "fetch_outcome s (cache_async_get e key d s)"
  by (auto simp: cache_async_get_def intro!: fetch_intros)


lemma process_deletions_ok:
  "\<forall>c. \<not> fails e c \<Longrightarrow>
   process_deletions e mt p prev cur s =
     Returned () (add_calls (map (\<lambda>d. DbRemoveFromLibrary d mt p) (filter (\<lambda>d. d \<notin> set cur) prev)) s)"
proof (induction prev arbitrary: s)
  case Nil
  show ?case by (simp add: add_calls_def)
next
  case (Cons d prev)
  then show ?case by (simp add: call_ok add_calls_def emit_def)
qed

lemma already_running_iff: "already_running jobs p d \<longleftrightarrow> (p, d) \<in> set jobs"
  by (induction jobs p d rule: already_running.induct) auto

lemma new_calls_append: "trace s' = trace s @ tr \<Longrightarrow> new_calls s s' = tr"
  by (simp add: new_calls_def)

lemma fetch_not_remove: "fetch_phase_call c \<Longrightarrow> \<not> is_remove c \<and> \<not> is_cache_set c \<and> body_call c"
  by (cases c) simp_all

lemma filter_fetch_calls:
  "list_all fetch_phase_call tr \<Longrightarrow> filter is_remove tr = [] \<and> filter is_cache_set tr = []"
  by (induction tr) (auto dest: fetch_not_remove)

lemma returned_value_SomeD: "returned_value r = Some v \<Longrightarrow> \<exists>s. r = Returned v s"
  by (cases r) simp_all

lemma sync_body_returns:
  assumes nofail: "\<forall>c. \<not> fails e c"
    and prov: "get_provider e p = Some mp"
    and ids: "current_ids e mp p mt = Some C"
  shows "\<exists>s' tr. sync_body_with mt (item_loop_of mt e p) e s p = Returned PyNone s' \<and>
           running_sync_jobs s' = running_sync_jobs s \<and>
           cache s' = (cache s)(cache_key_of mt p \<mapsto> C) \<and>
           trace s' = trace s @ tr \<and>
           filter is_remove tr =
             map (\<lambda>d. DbRemoveFromLibrary d mt p)
               (filter (\<lambda>d. d \<notin> set C) (cached_ids s (cache_key_of mt p))) \<and>
           filter is_cache_set tr = [CacheSet (cache_key_of mt p) C] \<and>
           ProvGetLibrary p mt \<in> set tr"
proof -
  let ?key = "cache_key_of mt p"
  let ?prev = "cached_ids s ?key"
  let ?s2 = "emit (ProvGetLibrary p mt) (emit (CacheGet ?key) s)"
  let ?loop = "item_loop_of mt e p mp ?prev ?s2"
  from returned_value_SomeD [OF item_loop_returns [OF nofail ids]]
  obtain s3 where l: "?loop = Returned C s3"
    by blast
  from item_loop_fetch [of ?s2 mt e p mp ?prev] l
  obtain tr where j3: "running_sync_jobs s3 = running_sync_jobs s"
    and c3: "cache s3 = cache s"
    and t3: "trace s3 = trace s @ [CacheGet ?key, ProvGetLibrary p mt] @ tr"
    and f3: "list_all fetch_phase_call tr"
    by (auto simp: fetch_outcome_def steps_def)
  let ?dels = "map (\<lambda>d. DbRemoveFromLibrary d mt p) (filter (\<lambda>d. d \<notin> set C) ?prev)"
  let ?s' = "(emit (CacheSet ?key C) (add_calls ?dels s3))\<lparr>cache := (cache s3)(?key \<mapsto> C)\<rparr>"
  have r: "sync_body_with mt (item_loop_of mt e p) e s p = Returned PyNone ?s'"
    using nofail prov l
    by (simp add: sync_body_with_def Let_def cache_async_get_def cache_async_set_def call_ok
        cached_ids_def process_deletions_ok)
  have d: "filter is_remove ?dels = ?dels" "filter is_cache_set ?dels = []"
    by (induction ?prev) (simp_all add: filter_empty_conv)
  show ?thesis
    apply (rule exI [of _ ?s'])
    apply (rule exI [of _ "[CacheGet ?key, ProvGetLibrary p mt] @ tr @ ?dels @ [CacheSet ?key C]"])
    using r j3 c3 t3 filter_fetch_calls [OF f3] d
    apply simp
    done
qed

lemma remove1_appended: "x \<notin> set xs \<Longrightarrow> remove1 x (xs @ [x]) = xs"
  by (simp add: remove1_append)

lemma sync_of_run:
  assumes "\<forall>c. \<not> fails e c"
    and "get_provider e p = Some mp"
    and "current_ids e mp p mt = Some C"
    and "\<not> already_running (running_sync_jobs s) p (desc_of mt)"
  shows "has_returned (sync_of mt e s p) \<and>
         running_sync_jobs (state_of (sync_of mt e s p)) = running_sync_jobs s \<and>
         cache (state_of (sync_of mt e s p)) = (cache s)(cache_key_of mt p \<mapsto> C) \<and>
         filter is_remove (new_calls s (state_of (sync_of mt e s p))) =
           map (\<lambda>d. DbRemoveFromLibrary d mt p)
             (filter (\<lambda>d. d \<notin> set C) (cached_ids s (cache_key_of mt p))) \<and>
         filter is_cache_set (new_calls s (state_of (sync_of mt e s p))) =
           [CacheSet (cache_key_of mt p) C] \<and>
         ProvGetLibrary p mt \<in> set (new_calls s (state_of (sync_of mt e s p)))"
proof -
  let ?d = "desc_of mt"
  let ?ev = "EVENT_MUSIC_SYNC_STATUS e"
  let ?s0 = "emit (LoggerDebug (StartSyncjob ?d p)) s"
  let ?s1 = "emit (SignalEvent ?ev (running_sync_jobs s @ [(p, ?d)]))
               (?s0\<lparr>running_sync_jobs := running_sync_jobs s @ [(p, ?d)]\<rparr>)"
  have key: "cached_ids ?s1 (cache_key_of mt p) = cached_ids s (cache_key_of mt p)"
    by (simp add: cached_ids_def)
  from sync_body_returns [OF assms(1,2,3), of ?s1] obtain s2 tr where
    b: "sync_body_with mt (item_loop_of mt e p) e ?s1 p = Returned PyNone s2"
    and j: "running_sync_jobs s2 = running_sync_jobs s @ [(p, ?d)]"
    and c: "cache s2 = (cache s)(cache_key_of mt p \<mapsto> C)"
    and t: "trace s2 = trace s @ [LoggerDebug (StartSyncjob ?d p),
              SignalEvent ?ev (running_sync_jobs s @ [(p, ?d)])] @ tr"
    and r: "filter is_remove tr = map (\<lambda>d. DbRemoveFromLibrary d mt p)
              (filter (\<lambda>d. d \<notin> set C) (cached_ids s (cache_key_of mt p)))"
    and cs: "filter is_cache_set tr = [CacheSet (cache_key_of mt p) C]"
    and pg: "ProvGetLibrary p mt \<in> set tr"
    unfolding key by auto
  from assms(4) have notin: "(p, ?d) \<notin> set (running_sync_jobs s)"
    by (simp add: already_running_iff)
  let ?jobs = "remove1 (p, ?d) (running_sync_jobs s @ [(p, ?d)])"
  let ?s' = "emit (SignalEvent ?ev ?jobs)
               ((emit (LoggerDebug (FinishedSyncing ?d p)) s2)\<lparr>running_sync_jobs := ?jobs\<rparr>)"
  have res: "sync_of mt e s p = Returned PyNone ?s'"
    using assms(1,4) b j
    by (simp add: sync_of_eq sync_task_def register_job_def unregister_job_def Let_def call_ok)
  have tr': "trace ?s' = trace s @ ([LoggerDebug (StartSyncjob ?d p),
              SignalEvent ?ev (running_sync_jobs s @ [(p, ?d)])] @ tr @
              [LoggerDebug (FinishedSyncing ?d p), SignalEvent ?ev ?jobs])"
    using t by simp
  show ?thesis
    unfolding res state_of.simps new_calls_append [OF tr']
    using r cs c pg remove1_appended [OF notin] by simp
qed

lemma count_list_filter:
  "count_list (filter Q xs) d = (if Q d then count_list xs d else 0)"
  by (induction xs) auto

lemma count_list_map_inj:
  "inj f \<Longrightarrow> count_list (map f xs) (f d) = count_list xs d"
  by (induction xs) (auto dest: injD)

text \<open>
  Claim C1, as the code has it. In a run of the syncer of any media type in which no
  call fails, with the provider known, the catalog resolving to the ids \<open>C\<close> and the job
  not already running: the run returns; its remove-from-library calls are one for each
  entry of the cached list whose id is not in \<open>C\<close>, in the order of the cached list, for
  this media type and provider, and no other, so an id is removed as many times as the
  cached list holds it and never when it is in \<open>C\<close>; the one cache write stores \<open>C\<close>, and
  the cache afterwards holds \<open>C\<close> under the key.
\<close>

theorem sync_removes_exactly_missing_ids:
  assumes "\<forall>c. \<not> fails e c"
    and "get_provider e p = Some mp"
    and "current_ids e mp p mt = Some C"
    and "\<not> already_running (running_sync_jobs s) p (desc_of mt)"
  shows "has_returned (sync_of mt e s p) \<and>
         filter is_remove (new_calls s (state_of (sync_of mt e s p))) =
           map (\<lambda>d. DbRemoveFromLibrary d mt p)
             (filter (\<lambda>d. d \<notin> set C) (cached_ids s (cache_key_of mt p))) \<and>
         (\<forall>d. count_list (filter is_remove (new_calls s (state_of (sync_of mt e s p))))
                 (DbRemoveFromLibrary d mt p) =
               (if d \<in> set C then 0 else count_list (cached_ids s (cache_key_of mt p)) d)) \<and>
         filter is_cache_set (new_calls s (state_of (sync_of mt e s p))) =
           [CacheSet (cache_key_of mt p) C] \<and>
         cache (state_of (sync_of mt e s p)) = (cache s)(cache_key_of mt p \<mapsto> C)"
proof -
  note run = sync_of_run [OF assms]
  have inj: "inj (\<lambda>d. DbRemoveFromLibrary d mt p)"
    by (simp add: inj_def)
  have "\<forall>d. count_list (filter is_remove (new_calls s (state_of (sync_of mt e s p))))
                 (DbRemoveFromLibrary d mt p) =
               (if d \<in> set C then 0 else count_list (cached_ids s (cache_key_of mt p)) d)"
    using run by (simp add: count_list_map_inj [OF inj] count_list_filter)
  with run show ?thesis by blast
qed

lemmas run_simps =
  async_library_artists_sync_def library_artists_sync_body_def
  async_library_albums_sync_def library_albums_sync_body_def
  async_library_tracks_sync_def library_tracks_sync_body_def
  async_library_playlists_sync_def library_playlists_sync_body_def
  async_library_radios_sync_def library_radios_sync_body_def
  sync_task_def register_job_def unregister_job_def
  cache_async_get_def cache_async_set_def call_def emit_def Let_def
  example_env_def example_provider_def example_item_def example_state_def
  two_artists_env_def async_music_provider_sync_def

theorem sync_removes_exactly_missing_ids_witness:
  "(\<forall>c. \<not> fails (two_artists_env (\<lambda>c. False)) c) \<and>
   get_provider (two_artists_env (\<lambda>c. False)) ''p1'' =
     Some (example_provider [Artist, Album] [example_item ''A'', example_item ''C'']) \<and>
   current_ids (two_artists_env (\<lambda>c. False))
     (example_provider [Artist, Album] [example_item ''A'', example_item ''C'']) ''p1'' Artist =
     Some [''A'', ''C''] \<and>
   \<not> already_running (running_sync_jobs (example_state ''library_artists_p1'' [''A'', ''B'', ''C'']))
       ''p1'' ''artists'' \<and>
   has_returned (async_library_artists_sync (two_artists_env (\<lambda>c. False))
        (example_state ''library_artists_p1'' [''A'', ''B'', ''C'']) ''p1'') \<and>
   filter is_remove
     (trace (state_of (async_library_artists_sync (two_artists_env (\<lambda>c. False))
        (example_state ''library_artists_p1'' [''A'', ''B'', ''C'']) ''p1''))) =
     [DbRemoveFromLibrary ''B'' Artist ''p1''] \<and>
   cache (state_of (async_library_artists_sync (two_artists_env (\<lambda>c. False))
        (example_state ''library_artists_p1'' [''A'', ''B'', ''C'']) ''p1'')) ''library_artists_p1'' =
     Some [''A'', ''C'']"
  using sync_removes_exactly_missing_ids
    [of "two_artists_env (\<lambda>c. False)" "''p1''"
        "example_provider [Artist, Album] [example_item ''A'', example_item ''C'']"
        Artist "[''A'', ''C'']" "example_state ''library_artists_p1'' [''A'', ''B'', ''C'']"]
  by (simp add: two_artists_env_def example_env_def example_provider_def example_item_def
      example_state_def new_calls_def cached_ids_def cache_key_of_def)

text \<open>
  Claim C1 as stated fails where the cached list holds an id twice: with \<open>B, A, B\<close>
  cached and the catalog \<open>A\<close>, nothing failing, \<open>B\<close> gets two removal calls, not one.
\<close>

theorem repeated_cached_id_is_removed_twice:
  "filter is_remove (trace (state_of (async_library_artists_sync
      (example_env (example_provider [Artist] [example_item ''A''])
         (\<lambda>i p. None) (\<lambda>i p. []) (\<lambda>c. False))
      (example_state ''library_artists_p1'' [''B'', ''A'', ''B'']) ''p1''))) =
     [DbRemoveFromLibrary ''B'' Artist ''p1'', DbRemoveFromLibrary ''B'' Artist ''p1'']"
  by (simp add: run_simps)

text \<open>
  The syncer writes such lists itself: two catalog items that resolve to the same local
  id put that id into the cache twice.
\<close>

lemma repeated_catalog_id_is_cached_twice:
  "cache (state_of (async_library_artists_sync
      (example_env (example_provider [Artist] [example_item ''X'', example_item ''X''])
         (\<lambda>i p. None) (\<lambda>i p. []) (\<lambda>c. False))
      (example_state ''library_artists_p1'' []) ''p1'')) ''library_artists_p1'' =
     Some [''X'', ''X'']"
  by (simp add: run_simps)

text \<open>
  The two runs the specification gives: cached \<open>A, B, C\<close> against the catalog \<open>A, C\<close>
  is the witness above; cached \<open>A, B\<close> against an empty catalog removes both and stores
  the empty list.
\<close>

lemma empty_catalog_purges:
  "filter is_remove (trace (state_of (async_library_artists_sync
      (example_env (example_provider [Artist] []) (\<lambda>i p. None) (\<lambda>i p. []) (\<lambda>c. False))
      (example_state ''library_artists_p1'' [''A'', ''B'']) ''p1''))) =
     [DbRemoveFromLibrary ''A'' Artist ''p1'', DbRemoveFromLibrary ''B'' Artist ''p1''] \<and>
   cache (state_of (async_library_artists_sync
      (example_env (example_provider [Artist] []) (\<lambda>i p. None) (\<lambda>i p. []) (\<lambda>c. False))
      (example_state ''library_artists_p1'' [''A'', ''B'']) ''p1'')) ''library_artists_p1'' = Some []"
  by (simp add: run_simps)

subsection \<open>What a syncer leaves of the state\<close>

lemma invoked_append: "invoked (a @ b) = invoked a @ invoked b"
  by (induction a rule: invoked.induct) simp_all

lemma invoked_body_calls: "list_all body_call tr \<Longrightarrow> invoked tr = []"
  by (induction tr rule: invoked.induct) simp_all

lemma steps_process_deletions:
  "steps body_call s (state_of (process_deletions e mt p prev cur s))"
  by (induction prev arbitrary: s) (auto intro!: steps_and_then steps_call steps_refl)

lemma steps_cache_async_set: "steps body_call s (state_of (cache_async_set e key v s))"
  by (simp add: cache_async_set_def call_def steps_def)

lemma steps_of_fetch_outcome: "fetch_outcome s r \<Longrightarrow> steps body_call s (state_of r)"
  by (auto simp: fetch_outcome_def intro: steps_mono dest: fetch_not_remove)

lemma sync_body_steps:
  "steps body_call s (state_of (sync_body_with mt (item_loop_of mt e p) e s p))"
  unfolding sync_body_with_def Let_def
  apply (rule steps_and_then [OF steps_of_fetch_outcome [OF cache_async_get_fetch]])
  apply (split option.split, intro conjI allI impI)
   apply (simp add: steps_refl)
  apply (rule steps_and_then [OF steps_call], simp)
  apply (rule steps_and_then [OF steps_of_fetch_outcome [OF item_loop_fetch]])
  apply (rule steps_and_then [OF steps_process_deletions])
  apply (rule steps_and_then [OF steps_cache_async_set])
  apply (simp add: steps_refl)
  done

lemma sync_task_frame:
  assumes f: "\<And>s1. steps body_call s1 (state_of (func e s1 p))"
  shows "(\<exists>tr. trace (state_of (sync_task desc func e s p)) = trace s @ tr \<and>
               invoked tr = [(desc, p)]) \<and>
         (distinct (running_sync_jobs s) \<longrightarrow>
            distinct (running_sync_jobs (state_of (sync_task desc func e s p))))"
proof (cases "already_running (running_sync_jobs s) p desc")
  case True
  then show ?thesis by (simp add: sync_task_def)
next
  case False
  let ?ev = "EVENT_MUSIC_SYNC_STATUS e"
  let ?jobs = "running_sync_jobs s @ [(p, desc)]"
  let ?s1 = "emit (SignalEvent ?ev ?jobs)
               ((emit (LoggerDebug (StartSyncjob desc p)) s)\<lparr>running_sync_jobs := ?jobs\<rparr>)"
  have reg: "register_job desc e s p =
      (if fails e (SignalEvent ?ev ?jobs) then Raised (CallFailed (SignalEvent ?ev ?jobs)) ?s1
       else Returned () ?s1)"
    by (simp add: register_job_def Let_def call_def)
  from False have notin: "(p, desc) \<notin> set (running_sync_jobs s)"
    by (simp add: already_running_iff)
  from f [of ?s1] obtain tr where
    j: "running_sync_jobs (state_of (func e ?s1 p)) = ?jobs" and
    t: "trace (state_of (func e ?s1 p)) = trace s @ [LoggerDebug (StartSyncjob desc p),
          SignalEvent ?ev ?jobs] @ tr" and
    b: "list_all body_call tr"
    by (auto simp: steps_def)
  show ?thesis
  proof (cases "fails e (SignalEvent ?ev ?jobs)")
    case True
    with False notin show ?thesis by (simp add: sync_task_def reg)
  next
    case nf: False
    show ?thesis
    proof (cases "func e ?s1 p")
      case (Raised err s2)
      with False nf notin j t b show ?thesis
        by (simp add: sync_task_def reg invoked_append invoked_body_calls)
    next
      case (Returned v s2)
      with False nf notin j t b show ?thesis
        by (simp add: sync_task_def reg unregister_job_def Let_def call_def
            invoked_append invoked_body_calls)
    qed
  qed
qed

lemma sync_of_frame:
  "(\<exists>tr. trace (state_of (sync_of mt e s p)) = trace s @ tr \<and> invoked tr = [(desc_of mt, p)]) \<and>
   (distinct (running_sync_jobs s) \<longrightarrow> distinct (running_sync_jobs (state_of (sync_of mt e s p))))"
  unfolding sync_of_eq by (rule sync_task_frame) (rule sync_body_steps)


subsection \<open>A run that fails\<close>

















subsection \<open>The guard against a second run\<close>

text \<open>
  Claim C2. (1) A sync whose (provider, description) pair is in the list of running jobs
  returns \<^verbatim>\<open>None\<close> without raising and without running the wrapped function: the
  state is unchanged but for the log line, so no provider, cache or store call is made.
  (2) A second call for the same pair made while the first is in flight, whatever it
  wraps, does nothing but write that log line. (3) If no pair occurs twice in the list
  before a syncer runs, none does after it, however it ends. (4) A sync whose pair is not
  in the list (its status event not failing) appends the pair and runs the wrapped
  function, once, from the state in which the pair is registered, and the removal
  follows the function's return. (5) So a syncer that is not yet running, with nothing
  failing, is entered once, asks the provider for its catalog, writes the cache once and
  leaves the list of running jobs as it found it: together with (2), of two calls for
  the same pair exactly one run executes.
\<close>

theorem running_sync_is_not_started_twice:
  "(already_running (running_sync_jobs s) p desc \<longrightarrow>
      sync_task desc func e s p = Returned PyNone (emit (LoggerDebug (AlreadyRunning desc p)) s)) \<and>
   sync_task desc (\<lambda>e s1 p. and_then (sync_task desc second e s1 p) (\<lambda>_ s2. func e s2 p)) e s p =
     sync_task desc (\<lambda>e s1 p. func e (emit (LoggerDebug (AlreadyRunning desc p)) s1) p) e s p \<and>
   (distinct (running_sync_jobs s) \<longrightarrow>
      distinct (running_sync_jobs (state_of (sync_of mt e s p)))) \<and>
   (\<not> already_running (running_sync_jobs s) p desc \<and>
    \<not> fails e (SignalEvent (EVENT_MUSIC_SYNC_STATUS e) (running_sync_jobs s @ [(p, desc)])) \<longrightarrow>
      running_sync_jobs (state_of (register_job desc e s p)) = running_sync_jobs s @ [(p, desc)] \<and>
      sync_task desc func e s p =
        and_then (func e (state_of (register_job desc e s p)) p)
          (\<lambda>_ s2. unregister_job desc e s2 p)) \<and>
   ((\<forall>c. \<not> fails e c) \<and> get_provider e p = Some mp \<and> current_ids e mp p mt = Some C \<and>
    \<not> already_running (running_sync_jobs s) p (desc_of mt) \<longrightarrow>
      has_returned (sync_of mt e s p) \<and>
      invoked (new_calls s (state_of (sync_of mt e s p))) = [(desc_of mt, p)] \<and>
      ProvGetLibrary p mt \<in> set (new_calls s (state_of (sync_of mt e s p))) \<and>
      filter is_cache_set (new_calls s (state_of (sync_of mt e s p))) =
        [CacheSet (cache_key_of mt p) C] \<and>
      running_sync_jobs (state_of (sync_of mt e s p)) = running_sync_jobs s)"
proof -
  let ?ev = "EVENT_MUSIC_SYNC_STATUS e"
  let ?jobs = "running_sync_jobs s @ [(p, desc)]"
  let ?s1 = "emit (SignalEvent ?ev ?jobs)
               ((emit (LoggerDebug (StartSyncjob desc p)) s)\<lparr>running_sync_jobs := ?jobs\<rparr>)"
  have reg: "register_job desc e s p =
      (if fails e (SignalEvent ?ev ?jobs) then Raised (CallFailed (SignalEvent ?ev ?jobs)) ?s1
       else Returned () ?s1)"
    by (simp add: register_job_def Let_def call_def)
  have 1: "already_running (running_sync_jobs s) p desc \<longrightarrow>
      sync_task desc func e s p = Returned PyNone (emit (LoggerDebug (AlreadyRunning desc p)) s)"
    by (simp add: sync_task_def)
  have inner: "sync_task desc second e ?s1 p =
      Returned PyNone (emit (LoggerDebug (AlreadyRunning desc p)) ?s1)"
    by (simp add: sync_task_def already_running_iff)
  have 2: "sync_task desc (\<lambda>e s1 p. and_then (sync_task desc second e s1 p) (\<lambda>_ s2. func e s2 p)) e s p =
     sync_task desc (\<lambda>e s1 p. func e (emit (LoggerDebug (AlreadyRunning desc p)) s1) p) e s p"
    unfolding sync_task_def [of desc "\<lambda>e s1 p. and_then (sync_task desc second e s1 p) (\<lambda>_ s2. func e s2 p)"]
      sync_task_def [of desc "\<lambda>e s1 p. func e (emit (LoggerDebug (AlreadyRunning desc p)) s1) p"]
    by (simp add: reg inner)
  have 3: "distinct (running_sync_jobs s) \<longrightarrow>
      distinct (running_sync_jobs (state_of (sync_of mt e s p)))"
    using sync_of_frame [of mt e s p] by blast
  have 4: "\<not> already_running (running_sync_jobs s) p desc \<and>
    \<not> fails e (SignalEvent ?ev ?jobs) \<longrightarrow>
      running_sync_jobs (state_of (register_job desc e s p)) = ?jobs \<and>
      sync_task desc func e s p =
        and_then (func e (state_of (register_job desc e s p)) p)
          (\<lambda>_ s2. unregister_job desc e s2 p)"
    by (simp add: sync_task_def reg)
  have 5: "(\<forall>c. \<not> fails e c) \<and> get_provider e p = Some mp \<and> current_ids e mp p mt = Some C \<and>
    \<not> already_running (running_sync_jobs s) p (desc_of mt) \<longrightarrow>
      has_returned (sync_of mt e s p) \<and>
      invoked (new_calls s (state_of (sync_of mt e s p))) = [(desc_of mt, p)] \<and>
      ProvGetLibrary p mt \<in> set (new_calls s (state_of (sync_of mt e s p))) \<and>
      filter is_cache_set (new_calls s (state_of (sync_of mt e s p))) =
        [CacheSet (cache_key_of mt p) C] \<and>
      running_sync_jobs (state_of (sync_of mt e s p)) = running_sync_jobs s"
  proof (intro impI, elim conjE)
    assume a: "\<forall>c. \<not> fails e c" "get_provider e p = Some mp" "current_ids e mp p mt = Some C"
      "\<not> already_running (running_sync_jobs s) p (desc_of mt)"
    note run = sync_of_run [OF a]
    from sync_of_frame [of mt e s p]
    have "invoked (new_calls s (state_of (sync_of mt e s p))) = [(desc_of mt, p)]"
      by (auto simp: new_calls_def)
    with run show "has_returned (sync_of mt e s p) \<and>
      invoked (new_calls s (state_of (sync_of mt e s p))) = [(desc_of mt, p)] \<and>
      ProvGetLibrary p mt \<in> set (new_calls s (state_of (sync_of mt e s p))) \<and>
      filter is_cache_set (new_calls s (state_of (sync_of mt e s p))) =
        [CacheSet (cache_key_of mt p) C] \<and>
      running_sync_jobs (state_of (sync_of mt e s p)) = running_sync_jobs s"
      by blast
  qed
  show ?thesis
    using 1 2 3 4 5 by - (intro conjI; assumption)
qed

theorem running_sync_is_not_started_twice_witness:
  "already_running [(''p1'', ''artists'')] ''p1'' ''artists'' \<and>
   async_library_artists_sync (two_artists_env (\<lambda>c. False))
     \<lparr>running_sync_jobs = [(''p1'', ''artists'')], cache = Map.empty, trace = []\<rparr> ''p1'' =
     Returned PyNone
       \<lparr>running_sync_jobs = [(''p1'', ''artists'')], cache = Map.empty,
        trace = [LoggerDebug (AlreadyRunning ''artists'' ''p1'')]\<rparr> \<and>
   distinct [(''p1'', ''artists'')] \<and>
   distinct (running_sync_jobs (state_of (sync_of Artist (two_artists_env (\<lambda>c. False))
     \<lparr>running_sync_jobs = [(''p1'', ''artists'')], cache = Map.empty, trace = []\<rparr> ''p1''))) \<and>
   \<not> already_running (running_sync_jobs (example_state ''library_artists_p1'' [''A'']))
       ''p1'' ''artists'' \<and>
   (\<forall>c. \<not> fails (two_artists_env (\<lambda>c. False)) c) \<and>
   get_provider (two_artists_env (\<lambda>c. False)) ''p1'' =
     Some (example_provider [Artist, Album] [example_item ''A'', example_item ''C'']) \<and>
   current_ids (two_artists_env (\<lambda>c. False))
     (example_provider [Artist, Album] [example_item ''A'', example_item ''C'']) ''p1'' Artist =
     Some [''A'', ''C''] \<and>
   running_sync_jobs (state_of (register_job ''artists'' (two_artists_env (\<lambda>c. False))
     (example_state ''library_artists_p1'' [''A'']) ''p1'')) = [(''p1'', ''artists'')] \<and>
   has_returned (sync_of Artist (two_artists_env (\<lambda>c. False))
     (example_state ''library_artists_p1'' [''A'']) ''p1'') \<and>
   invoked (new_calls (example_state ''library_artists_p1'' [''A''])
     (state_of (sync_of Artist (two_artists_env (\<lambda>c. False))
        (example_state ''library_artists_p1'' [''A'']) ''p1''))) = [(''artists'', ''p1'')] \<and>
   filter is_cache_set (new_calls (example_state ''library_artists_p1'' [''A''])
     (state_of (sync_of Artist (two_artists_env (\<lambda>c. False))
        (example_state ''library_artists_p1'' [''A'']) ''p1''))) =
     [CacheSet ''library_artists_p1'' [''A'', ''C'']] \<and>
   running_sync_jobs (state_of (sync_of Artist (two_artists_env (\<lambda>c. False))
     (example_state ''library_artists_p1'' [''A'']) ''p1'')) = []"
proof -
  let ?s = "\<lparr>running_sync_jobs = [(''p1'', ''artists'')], cache = Map.empty, trace = []\<rparr>"
  let ?e = "two_artists_env (\<lambda>c. False)"
  let ?mp = "example_provider [Artist, Album] [example_item ''A'', example_item ''C'']"
  let ?fresh = "example_state ''library_artists_p1'' [''A'']"
  have a: "already_running (running_sync_jobs ?s) ''p1'' ''artists''" by simp
  have d: "distinct (running_sync_jobs ?s)" by simp
  note t = running_sync_is_not_started_twice
    [where s = ?s and p = "''p1''" and desc = "''artists''" and func = library_artists_sync_body
       and e = ?e and second = library_artists_sync_body and mt = Artist and mp = ?mp
       and C = "[''A'', ''C'']"]
  from t a have n1: "sync_task ''artists'' library_artists_sync_body ?e ?s ''p1'' =
      Returned PyNone (emit (LoggerDebug (AlreadyRunning ''artists'' ''p1'')) ?s)"
    by blast
  from t d have n2: "distinct (running_sync_jobs (state_of (sync_of Artist ?e ?s ''p1'')))"
    by blast
  have na: "\<not> already_running (running_sync_jobs ?fresh) ''p1'' ''artists''"
    by (simp add: example_state_def)
  have nf: "\<forall>c. \<not> fails ?e c"
    by (simp add: two_artists_env_def example_env_def)
  have gp: "get_provider ?e ''p1'' = Some ?mp"
    by (simp add: two_artists_env_def example_env_def example_provider_def)
  have ci: "current_ids ?e ?mp ''p1'' Artist = Some [''A'', ''C'']"
    by (simp add: two_artists_env_def example_env_def example_provider_def example_item_def)
  note u = running_sync_is_not_started_twice
    [where s = ?fresh and p = "''p1''" and desc = "''artists''" and func = library_artists_sync_body
       and e = ?e and second = library_artists_sync_body and mt = Artist and mp = ?mp
       and C = "[''A'', ''C'']"]
  from u na nf have n4: "running_sync_jobs (state_of (register_job ''artists'' ?e ?fresh ''p1'')) =
      running_sync_jobs ?fresh @ [(''p1'', ''artists'')]"
    by blast
  from u na nf gp ci have n5: "has_returned (sync_of Artist ?e ?fresh ''p1'')"
    "invoked (new_calls ?fresh (state_of (sync_of Artist ?e ?fresh ''p1''))) = [(desc_of Artist, ''p1'')]"
    "filter is_cache_set (new_calls ?fresh (state_of (sync_of Artist ?e ?fresh ''p1''))) =
       [CacheSet (cache_key_of Artist ''p1'') [''A'', ''C'']]"
    "running_sync_jobs (state_of (sync_of Artist ?e ?fresh ''p1'')) = running_sync_jobs ?fresh"
    by (simp_all only: desc_of.simps simp_thms)
  have j0: "running_sync_jobs ?fresh = []" by (simp add: example_state_def)
  have ck: "cache_key_of Artist ''p1'' = ''library_artists_p1''" by (simp add: cache_key_of_def)
  from n1 have m1: "async_library_artists_sync ?e ?s ''p1'' =
     Returned PyNone
       \<lparr>running_sync_jobs = [(''p1'', ''artists'')], cache = Map.empty,
        trace = [LoggerDebug (AlreadyRunning ''artists'' ''p1'')]\<rparr>"
    by (simp add: async_library_artists_sync_def emit_def)
  from n4 j0 have m4: "running_sync_jobs (state_of (register_job ''artists'' ?e ?fresh ''p1'')) =
      [(''p1'', ''artists'')]"
    by simp
  from n5 j0 ck have m5: "invoked (new_calls ?fresh (state_of (sync_of Artist ?e ?fresh ''p1''))) =
      [(''artists'', ''p1'')]"
    "filter is_cache_set (new_calls ?fresh (state_of (sync_of Artist ?e ?fresh ''p1''))) =
       [CacheSet ''library_artists_p1'' [''A'', ''C'']]"
    "running_sync_jobs (state_of (sync_of Artist ?e ?fresh ''p1'')) = []"
    by (simp_all only: desc_of.simps)
  have a': "already_running [(''p1'', ''artists'')] ''p1'' ''artists''" by simp
  have d': "distinct [(''p1'', ''artists'')]" by simp
  show ?thesis
    using a' m1 d' n2 na nf gp ci m4 n5(1) m5
    by - (intro conjI; assumption)
qed

subsection \<open>The order of the syncers\<close>

lemma invokes_and_then:
  assumes "invokes l1 s m"
    and "\<And>v s1. m = Returned v s1 \<Longrightarrow> has_returned (f v s1) \<longrightarrow> invokes l2 s1 (f v s1)"
  shows "has_returned (and_then m f) \<longrightarrow> invokes (l1 @ l2) s (and_then m f)"
proof (cases m)
  case (Returned v s1)
  with assms show ?thesis
    by (auto simp: invokes_def invoked_append)
next
  case (Raised err s1)
  then show ?thesis by simp
qed

lemma invokes_stage:
  "invokes (if mt \<in> set supp then [(desc_of mt, p)] else []) s
     (if mt \<in> set supp then sync_of mt e s p else Returned PyNone s)"
  using sync_of_frame [of mt e s p] by (simp add: invokes_def)

lemma invokes_Returned: "has_returned (Returned v s) \<longrightarrow> invokes [] s (Returned v s)"
  by (simp add: invokes_def)

text \<open>
  Claim C5, as the code has it. For a known provider, a full sync that returns has
  entered the syncers of exactly the media types the provider supports, in the fixed
  order albums, tracks, artists, playlists, radios: the album sync runs before the
  artist sync.
\<close>

theorem provider_sync_order:
  assumes "get_provider e p = Some mp"
    and "has_returned (async_music_provider_sync e s p)"
  shows "invoked (new_calls s (state_of (async_music_provider_sync e s p))) =
           map (\<lambda>mt. (desc_of mt, p))
             (filter (\<lambda>mt. mt \<in> set (supported_mediatypes mp)) [Album, Track, Artist, Playlist, Radio])"
proof -
  let ?supp = "supported_mediatypes mp"
  let ?st = "\<lambda>mt. if mt \<in> set ?supp then [(desc_of mt, p)] else []"
  have eq: "async_music_provider_sync e s p =
     and_then (if Album \<in> set ?supp then sync_of Album e s p else Returned PyNone s)
       (\<lambda>_ s1. and_then (if Track \<in> set ?supp then sync_of Track e s1 p else Returned PyNone s1)
          (\<lambda>_ s2. and_then (if Artist \<in> set ?supp then sync_of Artist e s2 p else Returned PyNone s2)
             (\<lambda>_ s3. and_then (if Playlist \<in> set ?supp then sync_of Playlist e s3 p else Returned PyNone s3)
                (\<lambda>_ s4. and_then (if Radio \<in> set ?supp then sync_of Radio e s4 p else Returned PyNone s4)
                   (\<lambda>_ s5. Returned PyNone s5)))))"
    using assms(1) by (simp add: async_music_provider_sync_def)
  have "has_returned (async_music_provider_sync e s p) \<longrightarrow>
        invokes (?st Album @ ?st Track @ ?st Artist @ ?st Playlist @ ?st Radio @ []) s
          (async_music_provider_sync e s p)"
    unfolding eq
    by (intro invokes_and_then invokes_stage invokes_Returned)
  with assms(2) obtain tr where
    "trace (state_of (async_music_provider_sync e s p)) = trace s @ tr"
    "invoked tr = ?st Album @ ?st Track @ ?st Artist @ ?st Playlist @ ?st Radio @ []"
    by (auto simp: invokes_def)
  then show ?thesis
    by (simp add: new_calls_def)
qed

theorem provider_sync_order_witness:
  "get_provider (two_artists_env (\<lambda>c. False)) ''p1'' =
     Some (example_provider [Artist, Album] [example_item ''A'', example_item ''C'']) \<and>
   has_returned (async_music_provider_sync (two_artists_env (\<lambda>c. False))
      (example_state ''library_artists_p1'' []) ''p1'') \<and>
   invoked (new_calls (example_state ''library_artists_p1'' [])
      (state_of (async_music_provider_sync (two_artists_env (\<lambda>c. False))
         (example_state ''library_artists_p1'' []) ''p1''))) =
     [(''albums'', ''p1''), (''artists'', ''p1'')]"
proof -
  have g: "get_provider (two_artists_env (\<lambda>c. False)) ''p1'' =
     Some (example_provider [Artist, Album] [example_item ''A'', example_item ''C''])"
    by (simp add: two_artists_env_def example_env_def example_provider_def)
  have r: "has_returned (async_music_provider_sync (two_artists_env (\<lambda>c. False))
      (example_state ''library_artists_p1'' []) ''p1'')"
    by (simp add: run_simps)
  from provider_sync_order [OF g r] g r show ?thesis
    by (simp add: example_provider_def)
qed

text \<open>
  Claim C5 as stated fails: for a provider that supports artists and albums the album
  sync is entered first, the artist sync second.
\<close>

theorem albums_sync_runs_before_artists_sync:
  "invoked (trace (state_of (async_music_provider_sync (two_artists_env (\<lambda>c. False))
      (example_state ''library_artists_p1'' []) ''p1''))) =
   [(''albums'', ''p1''), (''artists'', ''p1'')]"
  by (simp add: run_simps)

subsection \<open>Removing tracks from a playlist\<close>

lemmas playlist_simps =
  async_add_playlist_tracks_def async_remove_playlist_tracks_def playlist_env_def
  example_playlist_def example_track_def empty_state_def example_env_def example_provider_def
  call_def emit_def Let_def sorted_by_quality_def new_calls_def existing_ids_def is_duplicate_def

lemma refs_on_provider_eq:
  "refs_on_provider pp refs acc =
     acc @ map ref_item_id (filter (\<lambda>r. ref_provider r = pp) refs)"
  by (induction refs arbitrary: acc) simp_all

lemma track_ids_to_remove_loop_eq:
  "track_ids_to_remove_loop pp tracks acc =
     acc @ concat (map (\<lambda>t. map ref_item_id (filter (\<lambda>r. ref_provider r = pp) (provider_ids t))) tracks)"
  by (induction tracks arbitrary: acc) (simp_all add: refs_on_provider_eq)

text \<open>
  Claim C10. For an existing, editable playlist with a provider reference, when no given
  track has a reference on the playlist's provider (and the playlist lookup itself does
  not fail), \<^verbatim>\<open>async_remove_playlist_tracks\<close> returns \<^verbatim>\<open>None\<close>, which is
  not the \<^verbatim>\<open>False\<close> of a missing or read-only playlist; the playlist lookup is
  the only call it makes, so no provider is contacted and the checksum is not updated.
\<close>

theorem remove_tracks_nothing_to_remove:
  assumes "\<not> fails e (MusicGet Playlist db_playlist_id ''database'')"
    and "music_async_get_playlist e db_playlist_id ''database'' = Some pl"
    and "is_editable pl"
    and "provider_ids pl = prov_playlist # rest"
    and "\<forall>track \<in> set tracks. \<forall>r \<in> set (provider_ids track).
           ref_provider r \<noteq> ref_provider prov_playlist"
  shows "async_remove_playlist_tracks e s db_playlist_id tracks =
           Returned PyNone (emit (MusicGet Playlist db_playlist_id ''database'') s) \<and>
         PyNone \<noteq> PyBool False \<and>
         new_calls s (state_of (async_remove_playlist_tracks e s db_playlist_id tracks)) =
           [MusicGet Playlist db_playlist_id ''database'']"
proof -
  from assms(5) have "track_ids_to_remove_loop (ref_provider prov_playlist) tracks [] = []"
    by (simp add: track_ids_to_remove_loop_eq filter_empty_conv)
  with assms(1-4) show ?thesis
    by (simp add: async_remove_playlist_tracks_def call_ok new_calls_def)
qed

theorem remove_tracks_nothing_to_remove_witness:
  "\<not> fails (playlist_env (Some (example_playlist ''spotify'' True)) ''spotify'' [])
       (MusicGet Playlist ''7'' ''database'') \<and>
   music_async_get_playlist (playlist_env (Some (example_playlist ''spotify'' True)) ''spotify'' [])
       ''7'' ''database'' = Some (example_playlist ''spotify'' True) \<and>
   is_editable (example_playlist ''spotify'' True) \<and>
   provider_ids (example_playlist ''spotify'' True) =
     [\<lparr>ref_provider = ''spotify'', ref_item_id = ''pl1'', quality = 0\<rparr>] \<and>
   async_remove_playlist_tracks (playlist_env (Some (example_playlist ''spotify'' True)) ''spotify'' [])
       empty_state ''7''
       [example_track ''1'' [\<lparr>ref_provider = ''qobuz'', ref_item_id = ''q1'', quality = 7\<rparr>]] =
     Returned PyNone
       \<lparr>running_sync_jobs = [], cache = Map.empty,
        trace = [MusicGet Playlist ''7'' ''database'']\<rparr>"
  using remove_tracks_nothing_to_remove
    [of "playlist_env (Some (example_playlist ''spotify'' True)) ''spotify'' []" "''7''"
        "example_playlist ''spotify'' True"
        "\<lparr>ref_provider = ''spotify'', ref_item_id = ''pl1'', quality = 0\<rparr>" "[]"
        "[example_track ''1'' [\<lparr>ref_provider = ''qobuz'', ref_item_id = ''q1'', quality = 7\<rparr>]]"
        empty_state]
  by (simp add: playlist_env_def example_env_def example_playlist_def example_track_def
      empty_state_def emit_def)

subsection \<open>Adding tracks to a playlist\<close>

lemma cur_playlist_track_ids_loop_eq:
  "cur_playlist_track_ids_loop items acc = acc @ existing_ids items"
  by (induction items arbitrary: acc) (simp_all add: existing_ids_def)

lemma already_exists_loop_eq:
  "already_exists_loop refs cur b \<longleftrightarrow> b \<or> list_ex (\<lambda>r. ref_item_id r \<in> set cur) refs"
  by (induction refs arbitrary: b) auto

lemma already_exists_is_duplicate:
  "already_exists_loop (provider_ids track) cur (item_id track \<in> set cur) = is_duplicate cur track"
  by (simp add: already_exists_loop_eq is_duplicate_def)

lemma track_ids_to_add_loop_eq:
  "track_ids_to_add_loop pp cur tracks acc =
     acc @ concat (map (\<lambda>t. if is_duplicate cur t then []
                             else (case pick_version pp (sorted_by_quality (provider_ids t)) of
                                     None \<Rightarrow> [] | Some i \<Rightarrow> [i])) tracks)"
  by (induction tracks arbitrary: acc)
     (simp_all add: already_exists_is_duplicate split: option.splits)

text \<open>
  Claim C6. \<^verbatim>\<open>async_add_playlist_tracks\<close> returns \<^verbatim>\<open>False\<close>, with no
  provider-side playlist edit and no checksum update among its calls, when the playlist
  is missing, when it is not editable, and when every candidate track is a duplicate:
  its id, or the id of one of its provider references, is among the ids and
  provider-reference ids of the tracks the playlist holds. (The collaborator calls made
  on the way, the playlist lookup and the listing of its tracks, are taken not to fail,
  and an editable playlist has its provider reference.)
\<close>

theorem add_tracks_returns_false:
  assumes "\<not> fails e (MusicGet Playlist db_playlist_id ''database'')"
    and "music_async_get_playlist e db_playlist_id ''database'' = None \<or>
         (\<exists>pl. music_async_get_playlist e db_playlist_id ''database'' = Some pl \<and>
               \<not> is_editable pl) \<or>
         (\<exists>pl (playlist_prov :: provider_ref) rest.
            music_async_get_playlist e db_playlist_id ''database'' = Some pl \<and>
            is_editable pl \<and> provider_ids pl = playlist_prov # rest \<and>
            \<not> fails e (MusicGetPlaylistTracks (ref_item_id playlist_prov) (ref_provider playlist_prov)) \<and>
            list_all (is_duplicate (existing_ids (music_async_get_playlist_tracks e
                        (ref_item_id playlist_prov) (ref_provider playlist_prov)))) tracks)"
  shows "returned_value (async_add_playlist_tracks e s db_playlist_id tracks) = Some (PyBool False) \<and>
         filter is_provider_edit
           (new_calls s (state_of (async_add_playlist_tracks e s db_playlist_id tracks))) = [] \<and>
         filter is_checksum_update
           (new_calls s (state_of (async_add_playlist_tracks e s db_playlist_id tracks))) = []"
  using assms(2)
proof (elim disjE exE conjE)
  assume "music_async_get_playlist e db_playlist_id ''database'' = None"
  with assms(1) show ?thesis
    by (simp add: async_add_playlist_tracks_def call_ok new_calls_def)
next
  fix pl
  assume "music_async_get_playlist e db_playlist_id ''database'' = Some pl" "\<not> is_editable pl"
  with assms(1) show ?thesis
    by (simp add: async_add_playlist_tracks_def call_ok new_calls_def)
next
  fix pl and playlist_prov :: provider_ref and rest
  let ?cur = "existing_ids (music_async_get_playlist_tracks e
                (ref_item_id playlist_prov) (ref_provider playlist_prov))"
  assume a: "music_async_get_playlist e db_playlist_id ''database'' = Some pl" "is_editable pl"
    "provider_ids pl = playlist_prov # rest"
    "\<not> fails e (MusicGetPlaylistTracks (ref_item_id playlist_prov) (ref_provider playlist_prov))"
    and d: "list_all (is_duplicate ?cur) tracks"
  from d have "track_ids_to_add_loop (ref_provider playlist_prov) ?cur tracks [] = []"
    by (simp add: track_ids_to_add_loop_eq list_all_iff)
  with assms(1) a show ?thesis
    by (simp add: async_add_playlist_tracks_def call_ok new_calls_def Let_def
        cur_playlist_track_ids_loop_eq)
qed

theorem add_tracks_returns_false_witness:
  "returned_value (async_add_playlist_tracks (playlist_env None ''spotify'' []) empty_state ''7''
       [example_track ''1'' [\<lparr>ref_provider = ''spotify'', ref_item_id = ''s1'', quality = 7\<rparr>]]) =
     Some (PyBool False) \<and>
   returned_value (async_add_playlist_tracks
       (playlist_env (Some (example_playlist ''spotify'' False)) ''spotify'' []) empty_state ''7''
       [example_track ''1'' [\<lparr>ref_provider = ''spotify'', ref_item_id = ''s1'', quality = 7\<rparr>]]) =
     Some (PyBool False) \<and>
   list_all (is_duplicate (existing_ids
       [example_track ''2'' [\<lparr>ref_provider = ''spotify'', ref_item_id = ''s1'', quality = 3\<rparr>]]))
     [example_track ''1'' [\<lparr>ref_provider = ''spotify'', ref_item_id = ''s1'', quality = 7\<rparr>]] \<and>
   returned_value (async_add_playlist_tracks
       (playlist_env (Some (example_playlist ''spotify'' True)) ''spotify''
          [example_track ''2'' [\<lparr>ref_provider = ''spotify'', ref_item_id = ''s1'', quality = 3\<rparr>]])
       empty_state ''7''
       [example_track ''1'' [\<lparr>ref_provider = ''spotify'', ref_item_id = ''s1'', quality = 7\<rparr>]]) =
     Some (PyBool False) \<and>
   trace (state_of (async_add_playlist_tracks
       (playlist_env (Some (example_playlist ''spotify'' True)) ''spotify''
          [example_track ''2'' [\<lparr>ref_provider = ''spotify'', ref_item_id = ''s1'', quality = 3\<rparr>]])
       empty_state ''7''
       [example_track ''1'' [\<lparr>ref_provider = ''spotify'', ref_item_id = ''s1'', quality = 7\<rparr>]])) =
     [MusicGet Playlist ''7'' ''database'', MusicGetPlaylistTracks ''pl1'' ''spotify'']"
proof -
  let ?t = "[example_track ''1'' [\<lparr>ref_provider = ''spotify'', ref_item_id = ''s1'', quality = 7\<rparr>]]"
  let ?ex = "[example_track ''2'' [\<lparr>ref_provider = ''spotify'', ref_item_id = ''s1'', quality = 3\<rparr>]]"
  have 1: "returned_value (async_add_playlist_tracks (playlist_env None ''spotify'' []) empty_state
      ''7'' ?t) = Some (PyBool False)"
    using add_tracks_returns_false [of "playlist_env None ''spotify'' []" "''7''" ?t empty_state]
    by (simp add: playlist_env_def example_env_def)
  have 2: "returned_value (async_add_playlist_tracks
      (playlist_env (Some (example_playlist ''spotify'' False)) ''spotify'' []) empty_state ''7'' ?t) =
      Some (PyBool False)"
    using add_tracks_returns_false
      [of "playlist_env (Some (example_playlist ''spotify'' False)) ''spotify'' []" "''7''" ?t
          empty_state]
    by (simp add: playlist_env_def example_env_def example_playlist_def)
  have d: "list_all (is_duplicate (existing_ids ?ex)) ?t"
    by (simp add: is_duplicate_def existing_ids_def example_track_def)
  have 3: "returned_value (async_add_playlist_tracks
      (playlist_env (Some (example_playlist ''spotify'' True)) ''spotify'' ?ex) empty_state ''7'' ?t) =
      Some (PyBool False)"
    using add_tracks_returns_false
      [of "playlist_env (Some (example_playlist ''spotify'' True)) ''spotify'' ?ex" "''7''" ?t
          empty_state] d
    by (simp add: playlist_env_def example_env_def example_playlist_def)
  have 4: "trace (state_of (async_add_playlist_tracks
      (playlist_env (Some (example_playlist ''spotify'' True)) ''spotify'' ?ex) empty_state ''7'' ?t)) =
     [MusicGet Playlist ''7'' ''database'', MusicGetPlaylistTracks ''pl1'' ''spotify'']"
    by (simp add: playlist_simps cur_playlist_track_ids_loop_eq)
  from 1 2 d 3 4 show ?thesis by blast
qed









subsection \<open>Where the code departs from what it does elsewhere\<close>

text \<open>
  Claim C4 at a failing input. The catalog \<open>A, C\<close> is synced twice in a row, nothing
  failing and nothing changing in between. The second artists run calls add-to-library
  for \<open>A\<close> and for \<open>C\<close> again: lines 269 to 271 add every catalog item on every run.
\<close>

theorem second_artists_sync_adds_again:
  "filter is_add (new_calls
      (state_of (async_library_artists_sync (two_artists_env (\<lambda>c. False))
         (example_state ''library_artists_p1'' []) ''p1''))
      (state_of (async_library_artists_sync (two_artists_env (\<lambda>c. False))
         (state_of (async_library_artists_sync (two_artists_env (\<lambda>c. False))
            (example_state ''library_artists_p1'' []) ''p1'')) ''p1''))) =
     [DbAddToLibrary ''A'' Artist ''p1'', DbAddToLibrary ''C'' Artist ''p1'']"
  by (simp add: run_simps new_calls_def)

text \<open>
  The tracks syncer, which guards the call with
  \<^verbatim>\<open>if db_item.item_id not in prev_db_ids\<close>, makes no add call in its second run
  on the same catalog.
\<close>

lemma second_tracks_sync_adds_nothing:
  "filter is_add (new_calls
      (state_of (async_library_tracks_sync (two_artists_env (\<lambda>c. False))
         (example_state ''library_tracks_p1'' []) ''p1''))
      (state_of (async_library_tracks_sync (two_artists_env (\<lambda>c. False))
         (state_of (async_library_tracks_sync (two_artists_env (\<lambda>c. False))
            (example_state ''library_tracks_p1'' []) ''p1'')) ''p1''))) = []"
  by (simp add: run_simps new_calls_def)

text \<open>
  Claim C8 at a failing input. Syncing the playlists of provider \<^verbatim>\<open>p1\<close>, whose
  listing returns a playlist with \<^verbatim>\<open>provider = "other"\<close>: the add-to-library call
  is made for \<^verbatim>\<open>other\<close>, not for \<^verbatim>\<open>p1\<close>. Line 357 passes
  \<^verbatim>\<open>playlist.provider\<close> where the four other syncers, and the removal in the same
  function, pass \<^verbatim>\<open>provider_id\<close>.
\<close>

theorem playlist_sync_adds_under_item_provider:
  "filter is_add (trace (state_of (async_library_playlists_sync relabelled_env empty_state ''p1''))) =
     [DbAddToLibrary ''x'' Playlist ''other'']"
  by (simp add: run_simps relabelled_env_def relabelled_playlist_def empty_state_def)

text \<open>
  Claim C9 at a failing input. The provider-registered event for an id that
  \<^verbatim>\<open>get_provider\<close> does not know: \<^verbatim>\<open>mass_event\<close> reads
  \<^verbatim>\<open>provider.type\<close> of \<^verbatim>\<open>None\<close> and raises, where
  \<^verbatim>\<open>async_music_provider_sync\<close> tests \<^verbatim>\<open>if not provider\<close> and returns.
\<close>

theorem mass_event_unknown_provider_raises:
  "mass_event (two_artists_env (\<lambda>c. False)) empty_state ''provider registered'' ''ghost'' =
     Raised AttributeError empty_state"
  by (simp add: mass_event_def two_artists_env_def example_env_def example_provider_def)

text \<open>
  The playlist editors have the same gap: a database playlist whose provider is not
  registered makes \<^verbatim>\<open>async_add_playlist_tracks\<close> raise after the checksum update.
\<close>

lemma add_tracks_unknown_provider_raises:
  "async_add_playlist_tracks (playlist_env (Some (example_playlist ''gone'' True)) ''spotify'' [])
     empty_state ''7''
     [example_track ''1'' [\<lparr>ref_provider = ''gone'', ref_item_id = ''g1'', quality = 7\<rparr>]] =
   Raised AttributeError
     \<lparr>running_sync_jobs = [], cache = Map.empty,
      trace = [MusicGet Playlist ''7'' ''database'', MusicGetPlaylistTracks ''pl1'' ''gone'',
               DbUpdatePlaylist ''7'' ''checksum'' ''1600000000.0'']\<rparr>"
  by (simp add: playlist_simps)

end
